theory Spec2Isabelle
  imports Main
begin

section \<open>Python values, errors and library functions\<close>

text \<open>
  The embedding follows \<^verbatim>\<open>elan.py\<close> class by class. Strings are \<open>string\<close>, an attribute
  that may be \<^verbatim>\<open>None\<close> is an \<open>option\<close>, an exception is the left summand of a sum.
  The language semantics assumed is that of Python 3: a \<^verbatim>\<open>dict\<close> iterates in insertion
  order, and an ordering comparison that involves \<^verbatim>\<open>None\<close> raises \<^verbatim>\<open>TypeError\<close>.
\<close>

datatype py_error =
    RuntimeError string
  | KeyError string
  | TypeError
  | AttributeError
  | ValueError

definition and_then :: "py_error + 'a \<Rightarrow> ('a \<Rightarrow> py_error + 'b) \<Rightarrow> py_error + 'b" where
  "and_then m f = (case m of Inl e \<Rightarrow> Inl e | Inr x \<Rightarrow> f x)"

definition is_ok :: "py_error + 'a \<Rightarrow> bool" where
  "is_ok m = (case m of Inl e \<Rightarrow> False | Inr x \<Rightarrow> True)"

text \<open>A \<^verbatim>\<open>dict\<close>: an association list with distinct keys, in insertion order.
  \<^verbatim>\<open>d[k] = v\<close> overwrites in place when the key is present and appends otherwise.\<close>

type_synonym ('k, 'v) dict = "('k \<times> 'v) list"

fun dict_set :: "'k \<Rightarrow> 'v \<Rightarrow> ('k, 'v) dict \<Rightarrow> ('k, 'v) dict" where
  "dict_set k v [] = [(k, v)]"
| "dict_set k v ((k', v') # d) = (if k' = k then (k, v) # d else (k', v') # dict_set k v d)"

definition dict_get :: "('k, 'v) dict \<Rightarrow> 'k \<Rightarrow> 'v option" where
  "dict_get d k = map_of d k"

definition dict_contains :: "'k \<Rightarrow> ('k, 'v) dict \<Rightarrow> bool" where
  "dict_contains k d = (map_of d k \<noteq> None)"

definition dict_keys :: "('k, 'v) dict \<Rightarrow> 'k list" where
  "dict_keys d = map fst d"

text \<open>Ordering comparisons of two values that are integers or \<^verbatim>\<open>None\<close>; equality never raises.\<close>

fun py_lt :: "int option \<Rightarrow> int option \<Rightarrow> py_error + bool" where
  "py_lt (Some x) (Some y) = Inr (x < y)"
| "py_lt _ _ = Inl TypeError"

fun py_gt :: "int option \<Rightarrow> int option \<Rightarrow> py_error + bool" where
  "py_gt (Some x) (Some y) = Inr (x > y)"
| "py_gt _ _ = Inl TypeError"

definition py_eq :: "int option \<Rightarrow> int option \<Rightarrow> bool" where
  "py_eq a b = (a = b)"

text \<open>\<^verbatim>\<open>xml.sax.saxutils.escape\<close>: the three replacements, of \<^verbatim>\<open>&\<close> first. Applied to
  \<^verbatim>\<open>None\<close> it raises \<^verbatim>\<open>AttributeError\<close>.\<close>

definition escape_char :: "char \<Rightarrow> string" where
  "escape_char c =
     (if c = CHR ''&'' then ''&amp;''
      else if c = CHR ''>'' then ''&gt;''
      else if c = CHR ''<'' then ''&lt;''
      else [c])"

definition escape :: "string \<Rightarrow> string" where
  "escape s = concat (map escape_char s)"

definition escape_opt :: "string option \<Rightarrow> py_error + string" where
  "escape_opt v = (case v of None \<Rightarrow> Inl AttributeError | Some s \<Rightarrow> Inr (escape s))"

definition quote :: string where
  "quote = [CHR 0x22]"

definition times :: "nat \<Rightarrow> string \<Rightarrow> string" where
  "times n s = concat (replicate n s)"

text \<open>\<^verbatim>\<open>int(s)\<close> and \<^verbatim>\<open>str(i)\<close> on ASCII text: surrounding white space, an optional sign,
  decimal digits with single underscores between them.\<close>

definition is_digit :: "char \<Rightarrow> bool" where
  "is_digit c = (48 \<le> (of_char c :: nat) \<and> (of_char c :: nat) \<le> 57)"

definition digit_val :: "char \<Rightarrow> nat" where
  "digit_val c = of_char c - 48"

definition is_space :: "char \<Rightarrow> bool" where
  "is_space c = ((of_char c :: nat) \<in> {9, 10, 11, 12, 13, 32})"

fun parse_digits :: "nat \<Rightarrow> string \<Rightarrow> nat option" where
  "parse_digits acc [] = Some acc"
| "parse_digits acc (c # cs) =
     (if is_digit c then parse_digits (acc * 10 + digit_val c) cs
      else if c = CHR ''_'' then
        (case cs of
           [] \<Rightarrow> None
         | d # ds \<Rightarrow> if is_digit d then parse_digits (acc * 10 + digit_val d) ds else None)
      else None)"

definition parse_nat :: "string \<Rightarrow> nat option" where
  "parse_nat s =
     (case s of
        [] \<Rightarrow> None
      | c # cs \<Rightarrow> if is_digit c then parse_digits (digit_val c) cs else None)"

definition strip :: "string \<Rightarrow> string" where
  "strip s = rev (dropWhile is_space (rev (dropWhile is_space s)))"

definition py_int :: "string \<Rightarrow> py_error + int" where
  "py_int s =
     (case strip s of
        [] \<Rightarrow> Inl ValueError
      | c # cs \<Rightarrow>
          if c = CHR ''-'' then
            (case parse_nat cs of None \<Rightarrow> Inl ValueError | Some n \<Rightarrow> Inr (- int n))
          else if c = CHR ''+'' then
            (case parse_nat cs of None \<Rightarrow> Inl ValueError | Some n \<Rightarrow> Inr (int n))
          else
            (case parse_nat (c # cs) of None \<Rightarrow> Inl ValueError | Some n \<Rightarrow> Inr (int n)))"

fun str_nat :: "nat \<Rightarrow> string" where
  "str_nat n =
     (if n < 10 then [char_of (48 + n)]
      else str_nat (n div 10) @ [char_of (48 + n mod 10)])"

definition py_str :: "int \<Rightarrow> string" where
  "py_str i = (if i < 0 then CHR ''-'' # str_nat (nat (- i)) else str_nat (nat i))"

section \<open>The element tree\<close>

text \<open>What \<^verbatim>\<open>xml.dom.minidom\<close> hands over: elements with a tag, attributes and children,
  text nodes, and the other node kinds (comments, processing instructions, document
  types, CDATA sections), which have a node name and neither a tag nor attributes.
  \<^verbatim>\<open>getAttribute\<close> of a missing attribute is the empty string.\<close>

datatype xml_node =
    Element string "(string \<times> string) list" "xml_node list"
  | Text string
  | Other string

fun nodeName :: "xml_node \<Rightarrow> string" where
  "nodeName (Element t a c) = t"
| "nodeName (Text s) = ''#text''"
| "nodeName (Other name) = name"

fun is_element :: "xml_node \<Rightarrow> bool" where
  "is_element (Element t a c) = True"
| "is_element _ = False"

fun is_text :: "xml_node \<Rightarrow> bool" where
  "is_text (Text s) = True"
| "is_text _ = False"

fun tagName :: "xml_node \<Rightarrow> py_error + string" where
  "tagName (Element t a c) = Inr t"
| "tagName _ = Inl AttributeError"

fun attributes :: "xml_node \<Rightarrow> (string \<times> string) list" where
  "attributes (Element t a c) = a"
| "attributes _ = []"

fun childNodes :: "xml_node \<Rightarrow> xml_node list" where
  "childNodes (Element t a c) = c"
| "childNodes _ = []"

definition hasAttribute :: "xml_node \<Rightarrow> string \<Rightarrow> bool" where
  "hasAttribute n k = (map_of (attributes n) k \<noteq> None)"

definition getAttribute :: "xml_node \<Rightarrow> string \<Rightarrow> string" where
  "getAttribute n k = (case map_of (attributes n) k of None \<Rightarrow> [] | Some v \<Rightarrow> v)"

text \<open>The two idioms every factory is written in: an optional attribute
  (\<^verbatim>\<open>if hasAttribute: getAttribute else: None\<close>) and a required one
  (\<^verbatim>\<open>else: raise RuntimeError(msg)\<close>).\<close>

definition optional_attribute :: "xml_node \<Rightarrow> string \<Rightarrow> string option" where
  "optional_attribute n k = (if hasAttribute n k then Some (getAttribute n k) else None)"

definition required_attribute :: "xml_node \<Rightarrow> string \<Rightarrow> string \<Rightarrow> py_error + string" where
  "required_attribute n k msg =
     (if hasAttribute n k then Inr (getAttribute n k) else Inl (RuntimeError msg))"

text \<open>\<^verbatim>\<open>node.firstChild\<close>, then \<^verbatim>\<open>nextSibling\<close> while the node is no element and has a
  sibling: the first element child, else the last child; \<^verbatim>\<open>None\<close> without children.\<close>

fun first_element_or_last :: "xml_node list \<Rightarrow> xml_node option" where
  "first_element_or_last [] = None"
| "first_element_or_last [n] = Some n"
| "first_element_or_last (n # m # ns) =
     (if is_element n then Some n else first_element_or_last (m # ns))"

text \<open>The text content idiom: the data of the first child when that is a text node.\<close>

definition first_text :: "xml_node \<Rightarrow> string option" where
  "first_text n = (case childNodes n of Text s # cs \<Rightarrow> Some s | _ \<Rightarrow> None)"

section \<open>Time slots and the time order\<close>

record ELANTimeSlot =
  ID :: string
  time_value :: "int option"

definition ELANTimeSlot_from_xml :: "xml_node \<Rightarrow> py_error + ELANTimeSlot" where
  "ELANTimeSlot_from_xml xml_node =
     and_then (tagName xml_node) (\<lambda>tag.
       if tag \<noteq> ''TIME_SLOT'' then
         Inl (RuntimeError (''Cannot construct an ELANTimeSlot object from xml node of type '' @ tag))
       else
         and_then (required_attribute xml_node ''TIME_SLOT_ID''
                     ''TIME_SLOT is missing TIME_SLOT_ID attribute.'') (\<lambda>time_slot_id.
           if hasAttribute xml_node ''TIME_VALUE'' then
             and_then (py_int (getAttribute xml_node ''TIME_VALUE'')) (\<lambda>v.
               Inr \<lparr>ID = time_slot_id, time_value = Some v\<rparr>)
           else Inr \<lparr>ID = time_slot_id, time_value = None\<rparr>))"

definition has_time_value :: "ELANTimeSlot \<Rightarrow> bool" where
  "has_time_value s = (time_value s \<noteq> None)"

definition get_time_value :: "ELANTimeSlot \<Rightarrow> int option" where
  "get_time_value s = time_value s"

definition ELANTimeSlot_to_xml :: "string \<Rightarrow> ELANTimeSlot \<Rightarrow> string" where
  "ELANTimeSlot_to_xml indent s =
     times 2 indent @ ''<TIME_SLOT ''
     @ ''TIME_SLOT_ID='' @ quote @ escape (ID s) @ quote
     @ (case time_value s of
          None \<Rightarrow> []
        | Some v \<Rightarrow> '' TIME_VALUE='' @ quote @ escape (py_str v) @ quote)
     @ ''/>\<newline>''"

text \<open>The four ordering hooks, \<^verbatim>\<open>__gt__\<close>, \<^verbatim>\<open>__lt__\<close>, \<^verbatim>\<open>__ge__\<close> and \<^verbatim>\<open>__le__\<close>. The last two
  test equality first, and \<^verbatim>\<open>or\<close> does not evaluate its second operand when the first
  holds.\<close>

definition ELANTimeSlot_gt :: "ELANTimeSlot \<Rightarrow> ELANTimeSlot \<Rightarrow> py_error + bool" where
  "ELANTimeSlot_gt self other = py_gt (time_value self) (time_value other)"

definition ELANTimeSlot_lt :: "ELANTimeSlot \<Rightarrow> ELANTimeSlot \<Rightarrow> py_error + bool" where
  "ELANTimeSlot_lt self other = py_lt (time_value self) (time_value other)"

definition ELANTimeSlot_ge :: "ELANTimeSlot \<Rightarrow> ELANTimeSlot \<Rightarrow> py_error + bool" where
  "ELANTimeSlot_ge self other =
     (if py_eq (time_value self) (time_value other) then Inr True
      else py_gt (time_value self) (time_value other))"

definition ELANTimeSlot_le :: "ELANTimeSlot \<Rightarrow> ELANTimeSlot \<Rightarrow> py_error + bool" where
  "ELANTimeSlot_le self other =
     (if py_eq (time_value self) (time_value other) then Inr True
      else py_lt (time_value self) (time_value other))"

record ELANTimeOrder =
  time_slots :: "ELANTimeSlot list"
  time_slots_dict :: "(string, ELANTimeSlot) dict"

definition ELANTimeOrder_init :: ELANTimeOrder where
  "ELANTimeOrder_init = \<lparr>time_slots = [], time_slots_dict = []\<rparr>"

definition add_time_slot :: "ELANTimeSlot \<Rightarrow> ELANTimeOrder \<Rightarrow> py_error + ELANTimeOrder" where
  "add_time_slot time_slot self =
     (if dict_contains (ID time_slot) (time_slots_dict self) then
        Inl (KeyError ''Cannot append time_slot. ID is already in use.'')
      else
        Inr (self\<lparr>time_slots := time_slots self @ [time_slot],
                   time_slots_dict := dict_set (ID time_slot) time_slot (time_slots_dict self)\<rparr>))"

definition get_time_slot_by_id :: "ELANTimeOrder \<Rightarrow> string \<Rightarrow> py_error + ELANTimeSlot" where
  "get_time_slot_by_id self i =
     (case dict_get (time_slots_dict self) i of
        Some s \<Rightarrow> Inr s
      | None \<Rightarrow> Inl (KeyError ''No ELANTimeSlot with the given ID found.''))"

fun time_order_children :: "xml_node list \<Rightarrow> ELANTimeOrder \<Rightarrow> py_error + ELANTimeOrder" where
  "time_order_children [] time_order = Inr time_order"
| "time_order_children (child_node # rest) time_order =
     (if \<not> is_element child_node then time_order_children rest time_order
      else
        and_then (tagName child_node) (\<lambda>tag.
          if tag \<noteq> ''TIME_SLOT'' then
            Inl (RuntimeError (''Expected TIME_SLOT element in TIME_ORDER but found a ''
                               @ tag @ '' element.''))
          else
            and_then (ELANTimeSlot_from_xml child_node) (\<lambda>time_slot.
              and_then (add_time_slot time_slot time_order) (\<lambda>time_order'.
                time_order_children rest time_order'))))"

definition ELANTimeOrder_from_xml :: "xml_node \<Rightarrow> py_error + ELANTimeOrder" where
  "ELANTimeOrder_from_xml xml_node =
     and_then (tagName xml_node) (\<lambda>tag.
       if tag \<noteq> ''TIME_ORDER'' then
         Inl (RuntimeError (''Cannot construct an ELANTimeOrder object from xml node of type '' @ tag))
       else time_order_children (childNodes xml_node) ELANTimeOrder_init)"

definition ELANTimeOrder_to_xml :: "string \<Rightarrow> ELANTimeOrder \<Rightarrow> string" where
  "ELANTimeOrder_to_xml indent self =
     foldl (\<lambda>node time_slot. node @ ELANTimeSlot_to_xml indent time_slot)
       (indent @ ''<TIME_ORDER>\<newline>'') (time_slots self)
     @ indent @ ''</TIME_ORDER>\<newline>''"

section \<open>Media and linked file descriptors\<close>

text \<open>An attribute of a start tag as every \<^verbatim>\<open>to_xml\<close> writes it, and one written only when
  the value is not \<^verbatim>\<open>None\<close>.\<close>

definition xml_attr :: "string \<Rightarrow> string \<Rightarrow> string" where
  "xml_attr name v = '' '' @ name @ ''='' @ quote @ escape v @ quote"

definition xml_opt_attr :: "string \<Rightarrow> string option \<Rightarrow> string" where
  "xml_opt_attr name v = (case v of None \<Rightarrow> [] | Some s \<Rightarrow> xml_attr name s)"

record ELANMediaDescriptor =
  media_url :: string
  md_mime_type :: string
  relative_media_url :: "string option"
  md_time_origin :: "string option"
  extracted_from :: "string option"

definition ELANMediaDescriptor_from_xml :: "xml_node \<Rightarrow> py_error + ELANMediaDescriptor" where
  "ELANMediaDescriptor_from_xml xml_node =
     and_then (tagName xml_node) (\<lambda>tag.
       if tag \<noteq> ''MEDIA_DESCRIPTOR'' then
         Inl (RuntimeError (''Cannot construct an ELANMediaDescriptor object from xml node of type '' @ tag))
       else
         and_then (required_attribute xml_node ''MEDIA_URL''
                     ''MEDIA_DESCRIPTOR is missing MEDIA_URL attribute.'') (\<lambda>url.
         and_then (required_attribute xml_node ''MIME_TYPE''
                     ''MEDIA_DESCRIPTOR is missing MIME_TYPE attribute.'') (\<lambda>mime.
           Inr \<lparr>media_url = url, md_mime_type = mime,
                relative_media_url = optional_attribute xml_node ''RELATIVE_MEDIA_URL'',
                md_time_origin = optional_attribute xml_node ''TIME_ORIGIN'',
                extracted_from = optional_attribute xml_node ''EXTRACTED_FROM''\<rparr>)))"

definition ELANMediaDescriptor_to_xml :: "string \<Rightarrow> ELANMediaDescriptor \<Rightarrow> string" where
  "ELANMediaDescriptor_to_xml indent self =
     times 2 indent @ ''<MEDIA_DESCRIPTOR ''
     @ ''MEDIA_URL='' @ quote @ escape (media_url self) @ quote
     @ xml_opt_attr ''RELATIVE_MEDIA_URL'' (relative_media_url self)
     @ xml_attr ''MIME_TYPE'' (md_mime_type self)
     @ xml_opt_attr ''TIME_ORIGIN'' (md_time_origin self)
     @ xml_opt_attr ''EXTRACTED_FROM'' (extracted_from self)
     @ ''/>\<newline>''"

record ELANLinkedFileDescriptor =
  link_url :: string
  lf_mime_type :: string
  relative_link_url :: "string option"
  lf_time_origin :: "string option"
  associated_with :: "string option"

definition ELANLinkedFileDescriptor_from_xml :: "xml_node \<Rightarrow> py_error + ELANLinkedFileDescriptor" where
  "ELANLinkedFileDescriptor_from_xml xml_node =
     and_then (tagName xml_node) (\<lambda>tag.
       if tag \<noteq> ''LINKED_FILE_DESCRIPTOR'' then
         Inl (RuntimeError (''Cannot construct an ELANLinkedFileDescriptor object from xml node of type '' @ tag))
       else
         and_then (required_attribute xml_node ''LINK_URL''
                     ''LINKED_FILE_DESCRIPTOR is missing LINK_URL attribute.'') (\<lambda>url.
         and_then (required_attribute xml_node ''MIME_TYPE''
                     ''LINKED_FILE_DESCRIPTOR is missing MIME_TYPE attribute.'') (\<lambda>mime.
           Inr \<lparr>link_url = url, lf_mime_type = mime,
                relative_link_url = optional_attribute xml_node ''RELATIVE_LINK_URL'',
                lf_time_origin = optional_attribute xml_node ''TIME_ORIGIN'',
                associated_with = optional_attribute xml_node ''ASSOCIATED_WITH''\<rparr>)))"

text \<open>\<^verbatim>\<open>ELANLinkedFileDescriptor.to_xml\<close> writes the start of the tag and \<^verbatim>\<open>LINK_URL\<close> and
  then calls \<^verbatim>\<open>self.has_relative_link_url()\<close>. The class defines getters and setters but
  none of \<^verbatim>\<open>has_relative_link_url\<close>, \<^verbatim>\<open>has_time_origin\<close> and \<^verbatim>\<open>has_associated_with\<close>, so
  the call raises \<^verbatim>\<open>AttributeError\<close> whatever the object holds.\<close>

definition ELANLinkedFileDescriptor_to_xml ::
  "string \<Rightarrow> ELANLinkedFileDescriptor \<Rightarrow> py_error + string" where
  "ELANLinkedFileDescriptor_to_xml indent self = Inl AttributeError"

section \<open>Annotations\<close>

text \<open>The two subclasses of \<^verbatim>\<open>ELANAnnotation\<close>; the fields of the base class are the
  selectors both share. The back references to the file and to the tier own nothing
  and are not stored: an operation that follows one takes the referent as an argument.\<close>

datatype ELANAnnotation =
    ELANAlignableAnnotation
      (annotation_id: string) (annotation_value: string)
      (start_time_slot: string) (end_time_slot: string)
      (svg_ref: "string option") (external_ref: "string option")
  | ELANRefAnnotation
      (annotation_id: string) (annotation_value: string)
      (annotation_ref: string)
      (previous_annotation: "string option") (external_ref: "string option")

text \<open>The constructors. \<^verbatim>\<open>ELANAlignableAnnotation.__init__\<close> takes \<^verbatim>\<open>external_ref\<close> and
  does not assign it, so the attribute keeps the class default \<^verbatim>\<open>None\<close>.\<close>

definition ELANAlignableAnnotation_init ::
  "string \<Rightarrow> string \<Rightarrow> string \<Rightarrow> string \<Rightarrow> string option \<Rightarrow> string option \<Rightarrow> ELANAnnotation" where
  "ELANAlignableAnnotation_init a_id a_value start_slot end_slot svg ext =
     ELANAlignableAnnotation a_id a_value start_slot end_slot svg None"

definition ELANRefAnnotation_init ::
  "string \<Rightarrow> string \<Rightarrow> string \<Rightarrow> string option \<Rightarrow> string option \<Rightarrow> ELANAnnotation" where
  "ELANRefAnnotation_init a_id a_value a_ref prev ext =
     ELANRefAnnotation a_id a_value a_ref prev ext"

definition get_external_ref :: "ELANAnnotation \<Rightarrow> string option" where
  "get_external_ref self = external_ref self"

definition has_external_ref :: "ELANAnnotation \<Rightarrow> bool" where
  "has_external_ref self = (external_ref self \<noteq> None)"

definition annotation_is_empty :: "ELANAnnotation \<Rightarrow> bool" where
  "annotation_is_empty self = (annotation_value self = [])"

text \<open>The value of the \<^verbatim>\<open>ANNOTATION_VALUE\<close> child, as both factories read it.\<close>

definition annotation_value_from_xml :: "string \<Rightarrow> xml_node \<Rightarrow> py_error + string" where
  "annotation_value_from_xml kind xml_node =
     (case first_element_or_last (childNodes xml_node) of
        None \<Rightarrow> Inl AttributeError
      | Some child_node \<Rightarrow>
          and_then (tagName child_node) (\<lambda>tag.
            if tag \<noteq> ''ANNOTATION_VALUE'' then
              Inl (RuntimeError (''Expected ANNOTATION_VALUE element in '' @ kind
                                 @ '' but found a '' @ tag @ '' element.''))
            else
              (case first_text child_node of
                 Some s \<Rightarrow> Inr s
               | None \<Rightarrow> Inr [])))"

definition ELANAlignableAnnotation_from_xml :: "xml_node \<Rightarrow> py_error + ELANAnnotation" where
  "ELANAlignableAnnotation_from_xml xml_node =
     and_then (tagName xml_node) (\<lambda>tag.
       if tag \<noteq> ''ALIGNABLE_ANNOTATION'' then
         Inl (RuntimeError (''Cannot construct an ELANAlignableAnnotation object from xml node of type '' @ tag))
       else
         and_then (required_attribute xml_node ''ANNOTATION_ID''
                     ''ALIGNABLE_ANNOTATION is missing ANNOTATION_ID attribute.'') (\<lambda>a_id.
         and_then (required_attribute xml_node ''TIME_SLOT_REF1''
                     ''ALIGNABLE_ANNOTATION is missing TIME_SLOT_REF1 attribute.'') (\<lambda>ref1.
         and_then (required_attribute xml_node ''TIME_SLOT_REF2''
                     ''ALIGNABLE_ANNOTATION is missing TIME_SLOT_REF2 attribute.'') (\<lambda>ref2.
         and_then (annotation_value_from_xml ''ALIGNABLE_ANNOTATION'' xml_node) (\<lambda>a_value.
           Inr (ELANAlignableAnnotation_init a_id a_value ref1 ref2
                  (optional_attribute xml_node ''SVG_REF'')
                  (optional_attribute xml_node ''EXTERNAL_REF'')))))))"

definition ELANRefAnnotation_from_xml :: "xml_node \<Rightarrow> py_error + ELANAnnotation" where
  "ELANRefAnnotation_from_xml xml_node =
     and_then (tagName xml_node) (\<lambda>tag.
       if tag \<noteq> ''REF_ANNOTATION'' then
         Inl (RuntimeError (''Cannot construct an ELANRefAnnotation object from xml node of type '' @ tag))
       else
         and_then (required_attribute xml_node ''ANNOTATION_ID''
                     ''ALIGNABLE_ANNOTATION is missing ANNOTATION_ID attribute.'') (\<lambda>a_id.
         and_then (required_attribute xml_node ''ANNOTATION_REF''
                     ''REF_ANNOTATION is missing ANNOTATION_REF attribute.'') (\<lambda>a_ref.
         and_then (annotation_value_from_xml ''REF_ANNOTATION'' xml_node) (\<lambda>a_value.
           Inr (ELANRefAnnotation_init a_id a_value a_ref
                  (optional_attribute xml_node ''PREVIOUS_ANNOTATION'')
                  (optional_attribute xml_node ''EXTERNAL_REF''))))))"

text \<open>\<^verbatim>\<open>to_xml\<close> of either class; an empty value still writes the element.\<close>

definition annotation_value_to_xml :: "string \<Rightarrow> ELANAnnotation \<Rightarrow> string" where
  "annotation_value_to_xml indent self =
     (if \<not> annotation_is_empty self then
        times 4 indent @ ''<ANNOTATION_VALUE>'' @ escape (annotation_value self)
        @ ''</ANNOTATION_VALUE>\<newline>''
      else times 4 indent @ ''<ANNOTATION_VALUE></ANNOTATION_VALUE>\<newline>'')"

fun ELANAnnotation_to_xml :: "string \<Rightarrow> ELANAnnotation \<Rightarrow> string" where
  "ELANAnnotation_to_xml indent (ELANAlignableAnnotation a_id a_value s e svg ext) =
     times 2 indent @ ''<ANNOTATION>\<newline>''
     @ times 3 indent @ ''<ALIGNABLE_ANNOTATION''
     @ xml_attr ''ANNOTATION_ID'' a_id
     @ xml_attr ''TIME_SLOT_REF1'' s
     @ xml_attr ''TIME_SLOT_REF2'' e
     @ xml_opt_attr ''SVG_REF'' svg
     @ xml_opt_attr ''EXT_REF'' ext
     @ ''>\<newline>''
     @ annotation_value_to_xml indent (ELANAlignableAnnotation a_id a_value s e svg ext)
     @ times 3 indent @ ''</ALIGNABLE_ANNOTATION>\<newline>''
     @ times 2 indent @ ''</ANNOTATION>\<newline>''"
| "ELANAnnotation_to_xml indent (ELANRefAnnotation a_id a_value a_ref prev ext) =
     times 2 indent @ ''<ANNOTATION>\<newline>''
     @ times 3 indent @ ''<REF_ANNOTATION''
     @ xml_attr ''ANNOTATION_ID'' a_id
     @ xml_attr ''ANNOTATION_REF'' a_ref
     @ xml_opt_attr ''PREVIOUS_ANNOTATION'' prev
     @ xml_opt_attr ''EXT_REF'' ext
     @ ''>\<newline>''
     @ annotation_value_to_xml indent (ELANRefAnnotation a_id a_value a_ref prev ext)
     @ times 3 indent @ ''</REF_ANNOTATION>\<newline>''
     @ times 2 indent @ ''</ANNOTATION>\<newline>''"

section \<open>Tiers\<close>

record ELANTier =
  tier_id :: string
  linguistic_type :: string
  participant :: "string option"
  annotator :: "string option"
  default_locale :: "string option"
  parent_tier_ref :: "string option"
  annotations :: "ELANAnnotation list"
  tier_annotations_dict :: "(string, ELANAnnotation) dict"

definition ELANTier_init ::
  "string \<Rightarrow> string \<Rightarrow> string option \<Rightarrow> string option \<Rightarrow> string option \<Rightarrow> string option \<Rightarrow> ELANTier" where
  "ELANTier_init t_id lt part ann loc parent =
     \<lparr>tier_id = t_id, linguistic_type = lt, participant = part, annotator = ann,
      default_locale = loc, parent_tier_ref = parent, annotations = [],
      tier_annotations_dict = []\<rparr>"

text \<open>\<^verbatim>\<open>add_annotation\<close> appends to the list; it neither fills nor asks the dictionary of the
  tier, which stays as the constructor left it.\<close>

definition add_annotation :: "ELANAnnotation \<Rightarrow> ELANTier \<Rightarrow> ELANTier" where
  "add_annotation annotation self = self\<lparr>annotations := annotations self @ [annotation]\<rparr>"

fun tier_children :: "xml_node list \<Rightarrow> ELANTier \<Rightarrow> py_error + ELANTier" where
  "tier_children [] tier = Inr tier"
| "tier_children (child_node # rest) tier =
     (if \<not> is_element child_node then tier_children rest tier
      else
        and_then (tagName child_node) (\<lambda>tag.
          if tag \<noteq> ''ANNOTATION'' then
            Inl (RuntimeError (''Expected ANNOTATION element in TIER but found a ''
                               @ tag @ '' element.''))
          else
            (case first_element_or_last (childNodes child_node) of
               None \<Rightarrow> Inl AttributeError
             | Some grand_child_node \<Rightarrow>
                 and_then (tagName grand_child_node) (\<lambda>gtag.
                   if gtag = ''ALIGNABLE_ANNOTATION'' then
                     and_then (ELANAlignableAnnotation_from_xml grand_child_node) (\<lambda>a.
                       tier_children rest (add_annotation a tier))
                   else if gtag = ''REF_ANNOTATION'' then
                     and_then (ELANRefAnnotation_from_xml grand_child_node) (\<lambda>a.
                       tier_children rest (add_annotation a tier))
                   else
                     Inl (RuntimeError
                       (''Expected ALIGNABLE_ANNOTATION or REF_ANNOTATION element in ANNOTATION but found a ''
                        @ tag @ '' element.''))))))"

definition ELANTier_from_xml :: "xml_node \<Rightarrow> py_error + ELANTier" where
  "ELANTier_from_xml xml_node =
     and_then (tagName xml_node) (\<lambda>tag.
       if tag \<noteq> ''TIER'' then
         Inl (RuntimeError (''Cannot construct an ELANTier object from xml node of type '' @ tag))
       else
         and_then (required_attribute xml_node ''TIER_ID''
                     ''TIER is missing TIER_ID attribute.'') (\<lambda>t_id.
         and_then (required_attribute xml_node ''LINGUISTIC_TYPE_REF''
                     ''TIER is missing LINGUISTIC_TYPE_REF attribute.'') (\<lambda>lt_ref.
           tier_children (childNodes xml_node)
             (ELANTier_init t_id lt_ref
                (optional_attribute xml_node ''PARTICIPANT'')
                (optional_attribute xml_node ''ANNOTATOR'')
                (optional_attribute xml_node ''DEFAULT_LOCALE'')
                (optional_attribute xml_node ''PARENT_REF'')))))"

definition ELANTier_to_xml :: "string \<Rightarrow> ELANTier \<Rightarrow> string" where
  "ELANTier_to_xml indent self =
     foldl (\<lambda>node annotation. node @ ELANAnnotation_to_xml indent annotation)
       (indent @ ''<TIER''
        @ xml_attr ''TIER_ID'' (tier_id self)
        @ xml_opt_attr ''PARTICIPANT'' (participant self)
        @ xml_opt_attr ''ANNOTATOR'' (annotator self)
        @ xml_attr ''LINGUISTIC_TYPE_REF'' (linguistic_type self)
        @ xml_opt_attr ''DEFAULT_LOCALE'' (default_locale self)
        @ xml_opt_attr ''PARENT_REF'' (parent_tier_ref self)
        @ ''>\<newline>'')
       (annotations self)
     @ indent @ ''</TIER>\<newline>''"

section \<open>Linguistic types and constraints\<close>

text \<open>\<^verbatim>\<open>graphic_references\<close> holds the attribute's text as the factory passes it.\<close>

record ELANLinguisticType =
  linguistic_type_id :: string
  time_alignable :: "bool option"
  lt_constraints :: "string option"
  graphic_references :: "string option"
  controlled_vocabulary_ref :: "string option"
  lt_external_ref :: "string option"
  lexicon_ref :: "string option"

text \<open>\<^verbatim>\<open>str(x)\<close> of a string or \<^verbatim>\<open>None\<close>.\<close>

definition str_opt :: "string option \<Rightarrow> string" where
  "str_opt v = (case v of None \<Rightarrow> ''None'' | Some s \<Rightarrow> s)"

text \<open>The alignability the constructor derives: from the \<^verbatim>\<open>TIME_ALIGNABLE\<close> text when there
  is no constraint, from the constraint otherwise.\<close>

definition init_time_alignable :: "string option \<Rightarrow> string option \<Rightarrow> py_error + bool" where
  "init_time_alignable cons ta =
     (case cons of
        None \<Rightarrow>
          if ta = Some ''true'' then Inr True
          else if ta = Some ''false'' then Inr False
          else Inl (RuntimeError (''Illegal value '' @ str_opt ta
                     @ '' of attribute TIME_ALIGNABLE in LINGUISTIC_TYPE element.''))
      | Some c \<Rightarrow>
          if c = ''None'' then Inr True
          else if c = ''Time_Subdivision'' then Inr True
          else if c = ''Symbolic_Subdivision'' then Inr False
          else if c = ''Symbolic_Association'' then Inr False
          else if c = ''Included_In'' then Inr True
          else Inl (RuntimeError (''Unknown constraint: '' @ c)))"

definition ELANLinguisticType_init ::
  "string \<Rightarrow> string option \<Rightarrow> string option \<Rightarrow> string option \<Rightarrow> string option
     \<Rightarrow> string option \<Rightarrow> string option \<Rightarrow> py_error + ELANLinguisticType" where
  "ELANLinguisticType_init lt_id ta cons graphic_ref cv_ref ext lex_r =
     and_then (init_time_alignable cons ta) (\<lambda>b.
       Inr \<lparr>linguistic_type_id = lt_id, time_alignable = Some b, lt_constraints = cons,
            graphic_references = graphic_ref, controlled_vocabulary_ref = cv_ref,
            lt_external_ref = ext, lexicon_ref = lex_r\<rparr>)"

definition ELANLinguisticType_from_xml :: "xml_node \<Rightarrow> py_error + ELANLinguisticType" where
  "ELANLinguisticType_from_xml xml_node =
     and_then (tagName xml_node) (\<lambda>tag.
       if tag \<noteq> ''LINGUISTIC_TYPE'' then
         Inl (RuntimeError (''Cannot construct an ELANLinguisticType object from xml node of type '' @ tag))
       else
         and_then (required_attribute xml_node ''LINGUISTIC_TYPE_ID''
                     ''LINGUISTIC_TYPE is missing LINGUISTIC_TYPE_ID attribute.'') (\<lambda>lt_id.
           ELANLinguisticType_init lt_id
             (optional_attribute xml_node ''TIME_ALIGNABLE'')
             (optional_attribute xml_node ''CONSTRAINTS'')
             (optional_attribute xml_node ''GRAPHIC_REFERENCES'')
             (optional_attribute xml_node ''CONTROLLED_VOCABULARY_REF'')
             (optional_attribute xml_node ''EXT_REF'')
             (optional_attribute xml_node ''LEXICON_REF'')))"

text \<open>\<^verbatim>\<open>has_graphic_references\<close> tests \<^verbatim>\<open>is True\<close>, which no text satisfies: the flag, when
  there is one, is written as \<^verbatim>\<open>false\<close>.\<close>

definition ELANLinguisticType_to_xml :: "string \<Rightarrow> ELANLinguisticType \<Rightarrow> string" where
  "ELANLinguisticType_to_xml indent self =
     indent @ ''<LINGUISTIC_TYPE''
     @ xml_attr ''LINGUISTIC_TYPE_ID'' (linguistic_type_id self)
     @ (case time_alignable self of
          None \<Rightarrow> []
        | Some b \<Rightarrow> if b then '' TIME_ALIGNABLE='' @ quote @ ''true'' @ quote
                   else '' TIME_ALIGNABLE='' @ quote @ ''false'' @ quote)
     @ xml_opt_attr ''CONSTRAINTS'' (lt_constraints self)
     @ (case graphic_references self of
          None \<Rightarrow> []
        | Some g \<Rightarrow> '' GRAPHIC_REFERENCES='' @ quote @ ''false'' @ quote)
     @ xml_opt_attr ''CONTROLLED_VOCABULARY_REF'' (controlled_vocabulary_ref self)
     @ xml_opt_attr ''EXT_REF'' (lt_external_ref self)
     @ xml_opt_attr ''LEXICON_REF'' (lexicon_ref self)
     @ ''/>\<newline>''"

text \<open>\<^verbatim>\<open>set_time_alignable\<close>. The message of the second \<^verbatim>\<open>raise\<close> concatenates the constraint,
  which is a \<^verbatim>\<open>TypeError\<close> when the constraint is \<^verbatim>\<open>None\<close>.\<close>

definition set_time_alignable :: "bool \<Rightarrow> ELANLinguisticType \<Rightarrow> py_error + ELANLinguisticType" where
  "set_time_alignable b self =
     (if b then
        (case lt_constraints self of
           None \<Rightarrow> Inr (self\<lparr>time_alignable := Some b\<rparr>)
         | Some c \<Rightarrow>
             if c \<noteq> ''Time_Subdivison'' \<and> c \<noteq> ''Included_In'' then
               Inl (RuntimeError (''Constraint '' @ c @ '' is not time alignable.''))
             else Inr (self\<lparr>time_alignable := Some b\<rparr>))
      else
        (case lt_constraints self of
           None \<Rightarrow> Inl TypeError
         | Some c \<Rightarrow>
             if c = ''Symbolic_Subdivision'' \<or> c = ''Symbolic_Association'' then
               Inl (RuntimeError (''Constraint '' @ c @ '' is time alignable.''))
             else Inr (self\<lparr>time_alignable := Some b\<rparr>)))"

record ELANConstraint =
  stereotype :: string
  con_description :: "string option"

definition ELANConstraint_from_xml :: "xml_node \<Rightarrow> py_error + ELANConstraint" where
  "ELANConstraint_from_xml xml_node =
     and_then (tagName xml_node) (\<lambda>tag.
       if tag \<noteq> ''CONSTRAINT'' then
         Inl (RuntimeError (''Cannot construct an ELANConstraint object from xml node of type '' @ tag))
       else
         and_then (required_attribute xml_node ''STEREOTYPE''
                     ''CONSTRAINT is missing STEREOTYPE attribute.'') (\<lambda>st.
           Inr \<lparr>stereotype = st, con_description = optional_attribute xml_node ''DESCRIPTION''\<rparr>))"

definition ELANConstraint_to_xml :: "string \<Rightarrow> ELANConstraint \<Rightarrow> string" where
  "ELANConstraint_to_xml indent self =
     indent @ ''<CONSTRAINT''
     @ xml_attr ''STEREOTYPE'' (stereotype self)
     @ xml_opt_attr ''DESCRIPTION'' (con_description self)
     @ ''/>\<newline>''"

section \<open>The interpreter state\<close>

text \<open>Two things are shared between objects and outlive a call. A tier is an object the
  file's list of tiers and its index of tiers both point to, so tiers live in a heap and
  are named by their address. \<^verbatim>\<open>ELANControlledVocabulary\<close> declares \<^verbatim>\<open>cv_entries = []\<close>
  and \<^verbatim>\<open>cv_entries_dict = {}\<close> in the class body and its constructor assigns neither, so
  \<^verbatim>\<open>self.cv_entries\<close> of every instance is the one list of the class.\<close>

record ELANControlledVocabularyEntry =
  cve_value :: string
  cve_description :: "string option"
  cve_ext_ref :: "string option"

type_synonym tier_ref = nat

record py_state =
  tier_heap :: "ELANTier list"
  cv_entries :: "ELANControlledVocabularyEntry list"
  cv_entries_dict :: "(string, ELANControlledVocabularyEntry) dict"

definition initial_state :: py_state where
  "initial_state = \<lparr>tier_heap = [], cv_entries = [], cv_entries_dict = []\<rparr>"

text \<open>A computation that may raise and may change the state; the state it leaves is
  returned also when it raises.\<close>

type_synonym 'a prog = "py_state \<Rightarrow> (py_error + 'a) \<times> py_state"

definition new_tier :: "ELANTier \<Rightarrow> tier_ref prog" where
  "new_tier t st = (Inr (length (tier_heap st)), st\<lparr>tier_heap := tier_heap st @ [t]\<rparr>)"

definition tier_at :: "py_state \<Rightarrow> tier_ref \<Rightarrow> ELANTier" where
  "tier_at st r = tier_heap st ! r"

text \<open>\<^verbatim>\<open>tier.add_annotation(annotation)\<close> on the tier object at address \<open>r\<close>.\<close>

definition tier_add_annotation :: "tier_ref \<Rightarrow> ELANAnnotation \<Rightarrow> py_state \<Rightarrow> py_state" where
  "tier_add_annotation r annotation st =
     st\<lparr>tier_heap := (tier_heap st)[r := add_annotation annotation (tier_at st r)]\<rparr>"

section \<open>Controlled vocabularies\<close>

definition ELANControlledVocabularyEntry_from_xml ::
  "xml_node \<Rightarrow> py_error + ELANControlledVocabularyEntry" where
  "ELANControlledVocabularyEntry_from_xml xml_node =
     and_then (tagName xml_node) (\<lambda>tag.
       if tag \<noteq> ''CV_ENTRY'' then
         Inl (RuntimeError (''Cannot construct an ELANControlledVocabularyEntry object from xml node of type '' @ tag))
       else
         Inr \<lparr>cve_value = (case first_text xml_node of Some s \<Rightarrow> s | None \<Rightarrow> []),
              cve_description = optional_attribute xml_node ''DESCRIPTION'',
              cve_ext_ref = optional_attribute xml_node ''EXT_REF''\<rparr>)"

definition ELANControlledVocabularyEntry_to_xml ::
  "string \<Rightarrow> ELANControlledVocabularyEntry \<Rightarrow> string" where
  "ELANControlledVocabularyEntry_to_xml indent self =
     times 2 indent @ ''<CV_ENTRY''
     @ xml_opt_attr ''DESCRIPTION'' (cve_description self)
     @ xml_opt_attr ''EXT_REF'' (cve_ext_ref self)
     @ ''>'' @ escape (cve_value self) @ ''</CV_ENTRY>\<newline>''"

record ELANControlledVocabulary =
  cv_id :: string
  cv_description :: "string option"
  cv_ext_ref :: "string option"

definition ELANControlledVocabulary_init ::
  "string \<Rightarrow> string option \<Rightarrow> string option \<Rightarrow> ELANControlledVocabulary" where
  "ELANControlledVocabulary_init i d e = \<lparr>cv_id = i, cv_description = d, cv_ext_ref = e\<rparr>"

definition get_cv_entries :: "ELANControlledVocabulary \<Rightarrow> py_state \<Rightarrow> ELANControlledVocabularyEntry list" where
  "get_cv_entries self st = cv_entries st"

definition cv_len :: "ELANControlledVocabulary \<Rightarrow> py_state \<Rightarrow> nat" where
  "cv_len self st = length (cv_entries st)"

definition get_cv_entry_by_value ::
  "ELANControlledVocabulary \<Rightarrow> string \<Rightarrow> py_state \<Rightarrow> ELANControlledVocabularyEntry option" where
  "get_cv_entry_by_value self v st = dict_get (cv_entries_dict st) v"

definition add_cv_entry :: "ELANControlledVocabulary \<Rightarrow> ELANControlledVocabularyEntry \<Rightarrow> unit prog" where
  "add_cv_entry self cv_entry st =
     (case cv_ext_ref self of
        None \<Rightarrow>
          if \<not> dict_contains (cve_value cv_entry) (cv_entries_dict st) then
            (Inr (), st\<lparr>cv_entries := cv_entries st @ [cv_entry],
                        cv_entries_dict := dict_set (cve_value cv_entry) cv_entry (cv_entries_dict st)\<rparr>)
          else (Inr (), st)
      | Some r \<Rightarrow>
          (Inl (RuntimeError ''Cannot add entries to a controlled vocabulary pointing to an external reference.''),
           st))"

fun cv_children :: "string \<Rightarrow> xml_node list \<Rightarrow> ELANControlledVocabulary \<Rightarrow> unit prog" where
  "cv_children parent_tag [] cv st = (Inr (), st)"
| "cv_children parent_tag (child_node # rest) cv st =
     (if is_text child_node then cv_children parent_tag rest cv st
      else
        (case tagName child_node of
           Inl e \<Rightarrow> (Inl e, st)
         | Inr tag \<Rightarrow>
             if tag \<noteq> ''CV_ENTRY'' then
               (Inl (RuntimeError (''Cannot construct an ELANControlledVocabularyEntry object from xml node of type ''
                                   @ parent_tag)), st)
             else
               (case ELANControlledVocabularyEntry_from_xml child_node of
                  Inl e \<Rightarrow> (Inl e, st)
                | Inr cv_entry \<Rightarrow>
                    (case add_cv_entry cv cv_entry st of
                       (Inl e, st') \<Rightarrow> (Inl e, st')
                     | (Inr u, st') \<Rightarrow> cv_children parent_tag rest cv st'))))"

definition ELANControlledVocabulary_from_xml :: "xml_node \<Rightarrow> ELANControlledVocabulary prog" where
  "ELANControlledVocabulary_from_xml xml_node st =
     (case tagName xml_node of
        Inl e \<Rightarrow> (Inl e, st)
      | Inr tag \<Rightarrow>
          if tag \<noteq> ''CONTROLLED_VOCABULARY'' then
            (Inl (RuntimeError (''Cannot construct an ELANControlledVocabulary object from xml node of type '' @ tag)), st)
          else
            (case required_attribute xml_node ''CV_ID''
                    ''CONTROLLED_VOCABULARY is missing CV_ID attribute.'' of
               Inl e \<Rightarrow> (Inl e, st)
             | Inr i \<Rightarrow>
                 (let cv = ELANControlledVocabulary_init i
                             (optional_attribute xml_node ''DESCRIPTION'')
                             (optional_attribute xml_node ''EXT_REF'')
                  in case cv_children tag (childNodes xml_node) cv st of
                       (Inl e, st') \<Rightarrow> (Inl e, st')
                     | (Inr u, st') \<Rightarrow> (Inr cv, st'))))"

definition ELANControlledVocabulary_to_xml ::
  "string \<Rightarrow> ELANControlledVocabulary \<Rightarrow> py_state \<Rightarrow> string" where
  "ELANControlledVocabulary_to_xml indent self st =
     foldl (\<lambda>node cv_entry. node @ ELANControlledVocabularyEntry_to_xml indent cv_entry)
       (indent @ ''<CONTROLLED_VOCABULARY''
        @ xml_attr ''CV_ID'' (cv_id self)
        @ xml_opt_attr ''DESCRIPTION'' (cv_description self)
        @ xml_opt_attr ''EXT_REF'' (cv_ext_ref self)
        @ ''>\<newline>'')
       (get_cv_entries self st)
     @ indent @ ''</CONTROLLED_VOCABULARY>\<newline>''"

section \<open>External references, locales and lexicon references\<close>

record ELANExternalReference =
  ext_ref_id :: string
  ext_ref_type :: string
  er_value :: string

definition ELANExternalReference_init ::
  "string \<Rightarrow> string \<Rightarrow> string \<Rightarrow> py_error + ELANExternalReference" where
  "ELANExternalReference_init i t v =
     (if t \<notin> set [''iso12620'', ''ecv'', ''cve_id'', ''lexen_id'', ''resource_url''] then
        Inl (RuntimeError (''Unknown type of external reference: '' @ t))
      else Inr \<lparr>ext_ref_id = i, ext_ref_type = t, er_value = v\<rparr>)"

definition ELANExternalReference_from_xml :: "xml_node \<Rightarrow> py_error + ELANExternalReference" where
  "ELANExternalReference_from_xml xml_node =
     and_then (tagName xml_node) (\<lambda>tag.
       if tag \<noteq> ''EXTERNAL_REF'' then
         Inl (RuntimeError (''Cannot construct an ELANExternalReference object from xml node of type '' @ tag))
       else
         and_then (required_attribute xml_node ''EXT_REF_ID''
                     ''EXTERNAL_REF is missing EXT_REF_ID attribute.'') (\<lambda>i.
         and_then (required_attribute xml_node ''TYPE''
                     ''EXTERNAL_REF is missing TYPE attribute.'') (\<lambda>t.
           (case first_text xml_node of
              None \<Rightarrow> Inl (RuntimeError ''EXTERNAL_REF is empty.'')
            | Some v \<Rightarrow> ELANExternalReference_init i t v))))"

text \<open>\<^verbatim>\<open>ELANExternalReference.to_xml\<close> calls \<^verbatim>\<open>self.get_ext_ref_id()\<close> for its first
  attribute. The class has \<^verbatim>\<open>get_id\<close>, \<^verbatim>\<open>get_type\<close> and \<^verbatim>\<open>get_value\<close> and no method of that
  name, so the call raises \<^verbatim>\<open>AttributeError\<close> whatever the object holds.\<close>

definition ELANExternalReference_to_xml :: "string \<Rightarrow> ELANExternalReference \<Rightarrow> py_error + string" where
  "ELANExternalReference_to_xml indent self = Inl AttributeError"

record ELANLocale =
  language_code :: string
  country_code :: "string option"
  variant :: "string option"

definition ELANLocale_from_xml :: "xml_node \<Rightarrow> py_error + ELANLocale" where
  "ELANLocale_from_xml xml_node =
     and_then (tagName xml_node) (\<lambda>tag.
       if tag \<noteq> ''LOCALE'' then
         Inl (RuntimeError (''Cannot construct an ELANLocale object from xml node of type '' @ tag))
       else
         and_then (required_attribute xml_node ''LANGUAGE_CODE''
                     ''LOCALE is missing LANGUAGE_CODE attribute.'') (\<lambda>l.
           Inr \<lparr>language_code = l,
                country_code = optional_attribute xml_node ''COUNTRY_CODE'',
                variant = optional_attribute xml_node ''VARIANT''\<rparr>))"

definition ELANLocale_to_xml :: "string \<Rightarrow> ELANLocale \<Rightarrow> string" where
  "ELANLocale_to_xml indent self =
     indent @ ''<LOCALE''
     @ xml_attr ''LANGUAGE_CODE'' (language_code self)
     @ xml_opt_attr ''COUNTRY_CODE'' (country_code self)
     @ xml_opt_attr ''VARIANT'' (variant self)
     @ ''/>\<newline>''"

record ELANLexiconReference =
  lex_ref_id :: string
  lex_ref_name :: string
  lex_ref_type :: string
  lex_url :: string
  lexicon_id :: string
  lexicon_name :: string
  datcat_id :: "string option"
  datcat_name :: "string option"

text \<open>The factory tests for \<^verbatim>\<open>LEXICON_NAME\<close> and then reads \<^verbatim>\<open>LEXINCON_NAME\<close>.\<close>

definition ELANLexiconReference_from_xml :: "xml_node \<Rightarrow> py_error + ELANLexiconReference" where
  "ELANLexiconReference_from_xml xml_node =
     and_then (tagName xml_node) (\<lambda>tag.
       if tag \<noteq> ''LEXICON_REF'' then
         Inl (RuntimeError (''Cannot construct an ELANLexiconReference object from xml node of type '' @ tag))
       else
         and_then (required_attribute xml_node ''LEX_REF_ID''
                     ''LEXICON_REF is missing LEX_REF_ID attribute.'') (\<lambda>i.
         and_then (required_attribute xml_node ''NAME''
                     ''LEXICON_REF is missing NAME attribute.'') (\<lambda>n.
         and_then (required_attribute xml_node ''TYPE''
                     ''LEXICON_REF is missing TYPE attribute.'') (\<lambda>t.
         and_then (required_attribute xml_node ''URL''
                     ''LEXICON_REF is missing URL attribute.'') (\<lambda>u.
         and_then (required_attribute xml_node ''LEXICON_ID''
                     ''LEXICON_REF is missing LEXICON_ID attribute.'') (\<lambda>li.
           if hasAttribute xml_node ''LEXICON_NAME'' then
             Inr \<lparr>lex_ref_id = i, lex_ref_name = n, lex_ref_type = t, lex_url = u,
                  lexicon_id = li, lexicon_name = getAttribute xml_node ''LEXINCON_NAME'',
                  datcat_id = optional_attribute xml_node ''DATCAT_ID'',
                  datcat_name = optional_attribute xml_node ''DATCAT_NAME''\<rparr>
           else Inl (RuntimeError ''LEXICON_REF is missing LEXICON_NAME attribute.'')))))))"

definition ELANLexiconReference_to_xml :: "string \<Rightarrow> ELANLexiconReference \<Rightarrow> string" where
  "ELANLexiconReference_to_xml indent self =
     indent @ ''<LEXICON_REF''
     @ xml_attr ''LEXICON_REF_ID'' (lex_ref_id self)
     @ xml_attr ''NAME'' (lex_ref_name self)
     @ xml_attr ''TYPE'' (lex_ref_type self)
     @ xml_attr ''URL'' (lex_url self)
     @ xml_attr ''LEXICON_ID'' (lexicon_id self)
     @ xml_attr ''LEXICON_NAME'' (lexicon_name self)
     @ xml_opt_attr ''DATCAT_ID'' (datcat_id self)
     @ xml_opt_attr ''DATCAT_NAME'' (datcat_name self)
     @ ''/>\<newline>''"

section \<open>The ELAN file\<close>

text \<open>The attributes of a file as \<^verbatim>\<open>parse_xml\<close> creates it: the factory assigns every list
  and dictionary anew on the instance. \<^verbatim>\<open>media_file\<close> is assigned only by the \<^verbatim>\<open>HEADER\<close>
  branch; \<^verbatim>\<open>None\<close> stands for the attribute not being set. A tier is held by its address.\<close>

record ELANFile =
  url :: string
  author :: "string option"
  date :: "string option"
  format :: "string option"
  version :: "string option"
  time_units :: "string option"
  media_file :: "string option"
  media_files :: "ELANMediaDescriptor list"
  linked_files :: "ELANLinkedFileDescriptor list"
  properties :: "(string, string) dict"
  time_order :: "ELANTimeOrder option"
  tiers :: "tier_ref list"
  linguistic_types :: "ELANLinguisticType list"
  constraints :: "ELANConstraint list"
  controlled_vocabularies :: "ELANControlledVocabulary list"
  locales :: "ELANLocale list"
  lexicon_references :: "ELANLexiconReference list"
  external_references :: "ELANExternalReference list"
  media_files_dict :: "(string, ELANMediaDescriptor) dict"
  linked_files_dict :: "(string, ELANLinkedFileDescriptor) dict"
  file_time_slots_dict :: "(string, ELANTimeSlot) dict"
  tiers_dict :: "(string, tier_ref) dict"
  annotations_dict :: "(string, ELANAnnotation) dict"
  linguistic_types_dict :: "(string, ELANLinguisticType) dict"
  constraints_dict :: "(string, ELANConstraint) dict"
  controlled_vocabularies_dict :: "(string, ELANControlledVocabulary) dict"
  external_references_dict :: "(string, ELANExternalReference) dict"
  lexicon_references_dict :: "(string, ELANLexiconReference) dict"

text \<open>The object \<^verbatim>\<open>parse_xml\<close> starts from: every attribute reset.\<close>

definition new_file :: "string \<Rightarrow> ELANFile" where
  "new_file file_name =
     \<lparr>url = file_name, author = None, date = None, format = None, version = None,
      time_units = None, media_file = None, media_files = [], linked_files = [],
      properties = [], time_order = None, tiers = [], linguistic_types = [],
      constraints = [], controlled_vocabularies = [], locales = [],
      lexicon_references = [], external_references = [], media_files_dict = [],
      linked_files_dict = [], file_time_slots_dict = [], tiers_dict = [],
      annotations_dict = [], linguistic_types_dict = [], constraints_dict = [],
      controlled_vocabularies_dict = [], external_references_dict = [],
      lexicon_references_dict = []\<rparr>"

text \<open>The loop that enters annotations (or time slots) into an index of the file.\<close>

definition index_annotations ::
  "ELANAnnotation list \<Rightarrow> (string, ELANAnnotation) dict \<Rightarrow> (string, ELANAnnotation) dict" where
  "index_annotations as d = foldl (\<lambda>d annotation. dict_set (annotation_id annotation) annotation d) d as"

definition index_time_slots ::
  "ELANTimeSlot list \<Rightarrow> (string, ELANTimeSlot) dict \<Rightarrow> (string, ELANTimeSlot) dict" where
  "index_time_slots ss d = foldl (\<lambda>d time_slot. dict_set (ID time_slot) time_slot d) d ss"

subsection \<open>Decoding\<close>

fun header_children :: "xml_node list \<Rightarrow> ELANFile \<Rightarrow> py_error + ELANFile" where
  "header_children [] elan_file = Inr elan_file"
| "header_children (header_child_node # rest) elan_file =
     (if \<not> is_element header_child_node then header_children rest elan_file
      else
        and_then (tagName header_child_node) (\<lambda>tag.
          if tag = ''MEDIA_DESCRIPTOR'' then
            and_then (ELANMediaDescriptor_from_xml header_child_node) (\<lambda>media_descriptor.
              header_children rest
                (elan_file\<lparr>media_files := media_files elan_file @ [media_descriptor],
                            media_files_dict := dict_set (media_url media_descriptor) media_descriptor
                                                  (media_files_dict elan_file)\<rparr>))
          else if tag = ''LINKED_FILE_DESCRIPTOR'' then
            and_then (ELANLinkedFileDescriptor_from_xml header_child_node) (\<lambda>linked_file_descriptor.
              header_children rest
                (elan_file\<lparr>linked_files := linked_files elan_file @ [linked_file_descriptor],
                            linked_files_dict := dict_set (link_url linked_file_descriptor)
                                                   linked_file_descriptor (linked_files_dict elan_file)\<rparr>))
          else if tag = ''PROPERTY'' then
            and_then (required_attribute header_child_node ''NAME''
                        ''PROPERTY element is missing NAME attribute.'') (\<lambda>name.
              (case first_text header_child_node of
                 None \<Rightarrow> Inl (RuntimeError ''PROPERTY is empty.'')
               | Some v \<Rightarrow>
                   header_children rest
                     (elan_file\<lparr>properties := dict_set name v (properties elan_file)\<rparr>)))
          else Inl (RuntimeError (''Unknown ELAN header entry: '' @ tag))))"

text \<open>The \<^verbatim>\<open>HEADER\<close> branch. The value of \<^verbatim>\<open>TIME_UNITS\<close> is assigned to \<^verbatim>\<open>media_file\<close>;
  \<^verbatim>\<open>time_units\<close> is assigned only when the attribute is missing.\<close>

definition parse_header :: "xml_node \<Rightarrow> ELANFile \<Rightarrow> py_error + ELANFile" where
  "parse_header child_node elan_file =
     (let elan_file =
            (if hasAttribute child_node ''MEDIA_FILE''
             then elan_file\<lparr>media_file := Some (getAttribute child_node ''MEDIA_FILE'')\<rparr>
             else elan_file);
          elan_file =
            (if hasAttribute child_node ''TIME_UNITS''
             then elan_file\<lparr>media_file := Some (getAttribute child_node ''TIME_UNITS'')\<rparr>
             else elan_file\<lparr>time_units := Some ''milliseconds''\<rparr>)
      in header_children (childNodes child_node) elan_file)"

fun document_children :: "xml_node list \<Rightarrow> ELANFile \<Rightarrow> ELANFile prog" where
  "document_children [] elan_file st = (Inr elan_file, st)"
| "document_children (child_node # rest) elan_file st =
     (if \<not> is_element child_node then document_children rest elan_file st
      else
        (case tagName child_node of
           Inl e \<Rightarrow> (Inl e, st)
         | Inr tag \<Rightarrow>
             if tag = ''HEADER'' then
               (case parse_header child_node elan_file of
                  Inl e \<Rightarrow> (Inl e, st)
                | Inr elan_file' \<Rightarrow> document_children rest elan_file' st)
             else if tag = ''TIME_ORDER'' then
               (case ELANTimeOrder_from_xml child_node of
                  Inl e \<Rightarrow> (Inl e, st)
                | Inr t_order \<Rightarrow>
                    document_children rest
                      (elan_file\<lparr>time_order := Some t_order,
                                  file_time_slots_dict :=
                                    index_time_slots (time_slots t_order) (file_time_slots_dict elan_file)\<rparr>)
                      st)
             else if tag = ''TIER'' then
               (case ELANTier_from_xml child_node of
                  Inl e \<Rightarrow> (Inl e, st)
                | Inr tier \<Rightarrow>
                    (case new_tier tier st of
                       (Inl e, st') \<Rightarrow> (Inl e, st')
                     | (Inr r, st') \<Rightarrow>
                         document_children rest
                           (elan_file\<lparr>tiers := tiers elan_file @ [r],
                                       tiers_dict := dict_set (tier_id tier) r (tiers_dict elan_file),
                                       annotations_dict :=
                                         index_annotations (annotations tier) (annotations_dict elan_file)\<rparr>)
                           st'))
             else if tag = ''LINGUISTIC_TYPE'' then
               (case ELANLinguisticType_from_xml child_node of
                  Inl e \<Rightarrow> (Inl e, st)
                | Inr lt \<Rightarrow>
                    document_children rest
                      (elan_file\<lparr>linguistic_types := linguistic_types elan_file @ [lt],
                                  linguistic_types_dict :=
                                    dict_set (linguistic_type_id lt) lt (linguistic_types_dict elan_file)\<rparr>)
                      st)
             else if tag = ''CONSTRAINT'' then
               (case ELANConstraint_from_xml child_node of
                  Inl e \<Rightarrow> (Inl e, st)
                | Inr c \<Rightarrow>
                    document_children rest
                      (elan_file\<lparr>constraints := constraints elan_file @ [c],
                                  constraints_dict := dict_set (stereotype c) c (constraints_dict elan_file)\<rparr>)
                      st)
             else if tag = ''CONTROLLED_VOCABULARY'' then
               (case ELANControlledVocabulary_from_xml child_node st of
                  (Inl e, st') \<Rightarrow> (Inl e, st')
                | (Inr cv, st') \<Rightarrow>
                    document_children rest
                      (elan_file\<lparr>controlled_vocabularies := controlled_vocabularies elan_file @ [cv],
                                  controlled_vocabularies_dict :=
                                    dict_set (cv_id cv) cv (controlled_vocabularies_dict elan_file)\<rparr>)
                      st')
             else if tag = ''EXTERNAL_REF'' then
               (case ELANExternalReference_from_xml child_node of
                  Inl e \<Rightarrow> (Inl e, st)
                | Inr er \<Rightarrow>
                    document_children rest
                      (elan_file\<lparr>external_references := external_references elan_file @ [er],
                                  external_references_dict :=
                                    dict_set (ext_ref_id er) er (external_references_dict elan_file)\<rparr>)
                      st)
             else if tag = ''LOCALE'' then
               (case ELANLocale_from_xml child_node of
                  Inl e \<Rightarrow> (Inl e, st)
                | Inr l \<Rightarrow>
                    document_children rest (elan_file\<lparr>locales := locales elan_file @ [l]\<rparr>) st)
             else if tag = ''LEXICON_REF'' then
               (case ELANLexiconReference_from_xml child_node of
                  Inl e \<Rightarrow> (Inl e, st)
                | Inr lr \<Rightarrow>
                    document_children rest
                      (elan_file\<lparr>lexicon_references := lexicon_references elan_file @ [lr],
                                  lexicon_references_dict :=
                                    dict_set (lex_ref_id lr) lr (lexicon_references_dict elan_file)\<rparr>)
                      st)
             else (Inl (RuntimeError (''Unknown XML node: '' @ tag)), st)))"

text \<open>\<^verbatim>\<open>parse_xml\<close>. The argument is the list of the document node's children, the first of
  which is \<^verbatim>\<open>xml_tree.firstChild\<close>. The test is on the node name, so a first child that is
  no element and bears the name passes it and fails at \<^verbatim>\<open>hasAttribute\<close>, which only an
  element has. The four metadata attributes are read when present; no branch raises
  when one is missing.\<close>

definition parse_xml :: "xml_node list \<Rightarrow> string \<Rightarrow> ELANFile prog" where
  "parse_xml xml_tree file_name st =
     (case xml_tree of
        [] \<Rightarrow> (Inl AttributeError, st)
      | root # siblings \<Rightarrow>
          if nodeName root = ''ANNOTATION_DOCUMENT'' then
            if \<not> is_element root then (Inl AttributeError, st)
            else
            (let children = childNodes root;
                 elan_file = new_file file_name;
                 elan_file = (if hasAttribute root ''AUTHOR''
                              then elan_file\<lparr>author := Some (getAttribute root ''AUTHOR'')\<rparr>
                              else elan_file);
                 elan_file = (if hasAttribute root ''DATE''
                              then elan_file\<lparr>date := Some (getAttribute root ''DATE'')\<rparr>
                              else elan_file);
                 elan_file = (if hasAttribute root ''FORMAT''
                              then elan_file\<lparr>format := Some (getAttribute root ''FORMAT'')\<rparr>
                              else elan_file);
                 elan_file = (if hasAttribute root ''VERSION''
                              then elan_file\<lparr>version := Some (getAttribute root ''VERSION'')\<rparr>
                              else elan_file)
             in document_children children elan_file st)
          else (Inl (RuntimeError ''XML document does not have the correct type ANNOTATION_DOCUMENT.''), st))"

subsection \<open>Encoding\<close>

text \<open>A loop \<^verbatim>\<open>for x in xs: node += x.to_xml(indent)\<close> whose body may raise.\<close>

fun append_each :: "('a \<Rightarrow> py_error + string) \<Rightarrow> 'a list \<Rightarrow> string \<Rightarrow> py_error + string" where
  "append_each f [] node = Inr node"
| "append_each f (x # xs) node = and_then (f x) (\<lambda>s. append_each f xs (node @ s))"

definition get_property :: "ELANFile \<Rightarrow> string \<Rightarrow> string option" where
  "get_property self k = dict_get (properties self) k"

definition property_to_xml :: "string \<Rightarrow> ELANFile \<Rightarrow> string \<Rightarrow> py_error + string" where
  "property_to_xml indent self prop =
     and_then (escape_opt (get_property self prop)) (\<lambda>v.
       Inr (times 2 indent @ ''<PROPERTY NAME='' @ quote @ escape prop @ quote @ ''>''
            @ v @ ''</PROPERTY>\<newline>''))"

text \<open>\<^verbatim>\<open>ELANFile.to_xml\<close>. The last step hands the text to \<^verbatim>\<open>xml.dom.minidom.parseString\<close>,
  which is not part of the repository: \<open>parses\<close> says which texts it accepts.\<close>

definition ELANFile_to_xml :: "(string \<Rightarrow> bool) \<Rightarrow> string \<Rightarrow> ELANFile \<Rightarrow> py_state \<Rightarrow> py_error + string" where
  "ELANFile_to_xml parses indent self st =
     and_then (escape_opt (date self)) (\<lambda>d.
     and_then (escape_opt (author self)) (\<lambda>a.
     and_then (escape_opt (version self)) (\<lambda>v.
       (let node = ''<?xml version='' @ quote @ ''1.0'' @ quote @ '' encoding='' @ quote @ ''UTF-8''
                   @ quote @ ''?>\<newline>''
                   @ ''<ANNOTATION_DOCUMENT''
                   @ '' DATE='' @ quote @ d @ quote
                   @ '' AUTHOR='' @ quote @ a @ quote
                   @ '' VERSION='' @ quote @ v @ quote
                   @ (case format self of
                        Some f \<Rightarrow> xml_attr ''FORMAT'' f
                      | None \<Rightarrow> '' FORMAT='' @ quote @ ''2.7'' @ quote)
                   @ ''>\<newline>''
                   @ indent @ ''<HEADER''
                   @ '' MEDIA_FILE='' @ quote @ quote
                   @ (case time_units self of
                        Some u \<Rightarrow> xml_attr ''TIME_UNITS'' u
                      | None \<Rightarrow> '' TIME_UNITS='' @ quote @ ''milliseconds'' @ quote)
                   @ ''>\<newline>'';
            node = foldl (\<lambda>node media_descriptor. node @ ELANMediaDescriptor_to_xml indent media_descriptor)
                     node (media_files self)
        in and_then (append_each (ELANLinkedFileDescriptor_to_xml indent) (linked_files self) node) (\<lambda>node.
           and_then (append_each (property_to_xml indent self) (dict_keys (properties self)) node) (\<lambda>node.
             (let node = node @ indent @ ''</HEADER>\<newline>''
              in case time_order self of
                   None \<Rightarrow> Inl AttributeError
                 | Some t_order \<Rightarrow>
                     (let node = node @ ELANTimeOrder_to_xml indent t_order;
                          node = foldl (\<lambda>node tier. node @ ELANTier_to_xml indent (tier_at st tier))
                                   node (tiers self);
                          node = foldl (\<lambda>node lt. node @ ELANLinguisticType_to_xml indent lt)
                                   node (linguistic_types self);
                          node = foldl (\<lambda>node l. node @ ELANLocale_to_xml indent l)
                                   node (locales self);
                          node = foldl (\<lambda>node c. node @ ELANConstraint_to_xml indent c)
                                   node (constraints self);
                          node = foldl (\<lambda>node cv. node @ ELANControlledVocabulary_to_xml indent cv st)
                                   node (controlled_vocabularies self);
                          node = foldl (\<lambda>node lr. node @ ELANLexiconReference_to_xml indent lr)
                                   node (lexicon_references self)
                      in and_then (append_each (ELANExternalReference_to_xml indent)
                                     (external_references self) node) (\<lambda>node.
                           (let node = node @ ''</ANNOTATION_DOCUMENT>\<newline>''
                            in if parses node then Inr node
                               else Inl (RuntimeError
                                 ''Could not produce well-formed XML from ELANFile object.'')))))))))))"

subsection \<open>Mutation and lookup\<close>

text \<open>\<^verbatim>\<open>add_tier\<close> for an argument that is a tier (the branch that raises \<^verbatim>\<open>TypeError\<close> is
  for other objects).\<close>

definition add_tier :: "tier_ref \<Rightarrow> ELANFile \<Rightarrow> py_state \<Rightarrow> py_error + ELANFile" where
  "add_tier tier self st =
     Inr (self\<lparr>tiers := tiers self @ [tier],
               tiers_dict := dict_set (tier_id (tier_at st tier)) tier (tiers_dict self),
               annotations_dict :=
                 index_annotations (annotations (tier_at st tier)) (annotations_dict self)\<rparr>)"

definition get_annotation_by_id :: "ELANFile \<Rightarrow> string \<Rightarrow> py_error + ELANAnnotation" where
  "get_annotation_by_id self a_id =
     (case dict_get (annotations_dict self) a_id of
        Some a \<Rightarrow> Inr a
      | None \<Rightarrow> Inl (KeyError (''Unknown annotation ID: '' @ a_id)))"

text \<open>\<^verbatim>\<open>get_start_time\<close> and \<^verbatim>\<open>get_end_time\<close> of an alignable annotation whose file is \<open>elan_file\<close>;
  a reference annotation has neither method. The result is what \<^verbatim>\<open>get_time_value\<close>
  returns, \<^verbatim>\<open>None\<close> included.\<close>

definition slot_time :: "ELANFile \<Rightarrow> string \<Rightarrow> py_error + int option" where
  "slot_time elan_file slot_id =
     (case time_order elan_file of
        None \<Rightarrow> Inl AttributeError
      | Some t_order \<Rightarrow>
          and_then (get_time_slot_by_id t_order slot_id) (\<lambda>time_slot.
            Inr (get_time_value time_slot)))"

fun get_start_time :: "ELANFile \<Rightarrow> ELANAnnotation \<Rightarrow> py_error + int option" where
  "get_start_time elan_file (ELANAlignableAnnotation a_id a_value s e svg ext) = slot_time elan_file s"
| "get_start_time elan_file (ELANRefAnnotation a_id a_value a_ref prev ext) = Inl AttributeError"

fun get_end_time :: "ELANFile \<Rightarrow> ELANAnnotation \<Rightarrow> py_error + int option" where
  "get_end_time elan_file (ELANAlignableAnnotation a_id a_value s e svg ext) = slot_time elan_file e"
| "get_end_time elan_file (ELANRefAnnotation a_id a_value a_ref prev ext) = Inl AttributeError"

section \<open>Invariants and the objects of the examples\<close>

text \<open>What \<^verbatim>\<open>add_time_slot\<close> keeps of a time order: the index lists the slots by their
  identifiers, in the order of the sequence, and no identifier occurs twice.\<close>

definition time_order_inv :: "ELANTimeOrder \<Rightarrow> bool" where
  "time_order_inv t =
     (time_slots_dict t = map (\<lambda>s. (ID s, s)) (time_slots t) \<and> distinct (map ID (time_slots t)))"

definition time_order_ok :: "ELANFile \<Rightarrow> bool" where
  "time_order_ok f = (case time_order f of None \<Rightarrow> True | Some t \<Rightarrow> time_order_inv t)"

text \<open>The text an element tree stands for: start tag with the attributes in order, the
  children, end tag. It relates a text that \<^verbatim>\<open>to_xml\<close> returns to the tree the parser
  builds from it.\<close>

fun xml_text :: "xml_node \<Rightarrow> string" where
  "xml_text (Text s) = escape s"
| "xml_text (Other name) = []"
| "xml_text (Element tag attrs children) =
     ''<'' @ tag @ concat (map (\<lambda>(k, v). xml_attr k v) attrs)
     @ (if children = [] then ''/>''
        else ''>'' @ concat (map xml_text children) @ ''</'' @ tag @ ''>'')"

text \<open>A small document: its tree, the file it decodes to, and the tree of the text that
  file encodes to.\<close>

definition source_tree :: "xml_node list" where
  "source_tree =
     [Element ''ANNOTATION_DOCUMENT''
        [(''AUTHOR'', ''me''), (''DATE'', ''2016-06-01''), (''FORMAT'', ''2.7''), (''VERSION'', ''2.7'')]
        [Element ''HEADER'' [] [],
         Element ''TIME_ORDER'' []
           [Element ''TIME_SLOT'' [(''TIME_SLOT_ID'', ''ts1''), (''TIME_VALUE'', ''0'')] []]]]"

definition source_file :: ELANFile where
  "source_file =
     (new_file ''doc.eaf'')
       \<lparr>author := Some ''me'', date := Some ''2016-06-01'', format := Some ''2.7'',
        version := Some ''2.7'', time_units := Some ''milliseconds'',
        time_order := Some \<lparr>time_slots = [\<lparr>ID = ''ts1'', time_value = Some 0\<rparr>],
                             time_slots_dict = [(''ts1'', \<lparr>ID = ''ts1'', time_value = Some 0\<rparr>)]\<rparr>,
        file_time_slots_dict := [(''ts1'', \<lparr>ID = ''ts1'', time_value = Some 0\<rparr>)]\<rparr>"

definition encoded_tree :: "xml_node list" where
  "encoded_tree =
     [Element ''ANNOTATION_DOCUMENT''
        [(''DATE'', ''2016-06-01''), (''AUTHOR'', ''me''), (''VERSION'', ''2.7''), (''FORMAT'', ''2.7'')]
        [Text ''\<newline>    '',
         Element ''HEADER'' [(''MEDIA_FILE'', []), (''TIME_UNITS'', ''milliseconds'')]
           [Text ''\<newline>    ''],
         Text ''\<newline>    '',
         Element ''TIME_ORDER'' []
           [Text ''\<newline>        '',
            Element ''TIME_SLOT'' [(''TIME_SLOT_ID'', ''ts1''), (''TIME_VALUE'', ''0'')] [],
            Text ''\<newline>    ''],
         Text ''\<newline>'']]"

text \<open>The same document with one external reference.\<close>

definition tree_with_external_ref :: "xml_node list" where
  "tree_with_external_ref =
     [Element ''ANNOTATION_DOCUMENT''
        [(''AUTHOR'', ''me''), (''DATE'', ''2016-06-01''), (''FORMAT'', ''2.7''), (''VERSION'', ''2.7'')]
        [Element ''HEADER'' [] [],
         Element ''TIME_ORDER'' []
           [Element ''TIME_SLOT'' [(''TIME_SLOT_ID'', ''ts1''), (''TIME_VALUE'', ''0'')] []],
         Element ''EXTERNAL_REF'' [(''EXT_REF_ID'', ''er1''), (''TYPE'', ''iso12620'')]
           [Text ''http://www.isocat.org/datcat/DC-1345'']]]"

definition file_with_external_ref :: ELANFile where
  "file_with_external_ref =
     source_file
       \<lparr>external_references :=
          [\<lparr>ext_ref_id = ''er1'', ext_ref_type = ''iso12620'',
            er_value = ''http://www.isocat.org/datcat/DC-1345''\<rparr>],
        external_references_dict :=
          [(''er1'', \<lparr>ext_ref_id = ''er1'', ext_ref_type = ''iso12620'',
                     er_value = ''http://www.isocat.org/datcat/DC-1345''\<rparr>)]\<rparr>"

text \<open>A time order of three slots, the last one without a value, and a file with it.\<close>

definition three_slots :: ELANTimeOrder where
  "three_slots =
     \<lparr>time_slots = [\<lparr>ID = ''ts1'', time_value = Some 0\<rparr>,
                    \<lparr>ID = ''ts2'', time_value = Some 1000\<rparr>,
                    \<lparr>ID = ''ts3'', time_value = None\<rparr>],
      time_slots_dict = [(''ts1'', \<lparr>ID = ''ts1'', time_value = Some 0\<rparr>),
                         (''ts2'', \<lparr>ID = ''ts2'', time_value = Some 1000\<rparr>),
                         (''ts3'', \<lparr>ID = ''ts3'', time_value = None\<rparr>)]\<rparr>"

definition file_with_slots :: ELANFile where
  "file_with_slots = (new_file ''doc.eaf'')\<lparr>time_order := Some three_slots\<rparr>"

text \<open>Two tier objects, each with one annotation of identifier \<^verbatim>\<open>a1\<close>, and a file that
  holds the first tier.\<close>

definition old_a1 :: ELANAnnotation where
  "old_a1 = ELANAlignableAnnotation ''a1'' ''old'' ''ts1'' ''ts2'' None None"

definition new_a1 :: ELANAnnotation where
  "new_a1 = ELANRefAnnotation ''a1'' ''new'' ''a0'' None None"

definition two_tiers :: py_state where
  "two_tiers =
     \<lparr>tier_heap = [add_annotation old_a1 (ELANTier_init ''T0'' ''default'' None None None None),
                   add_annotation new_a1 (ELANTier_init ''T1'' ''default'' None None None None)],
      cv_entries = [], cv_entries_dict = []\<rparr>"

definition file_with_T0 :: ELANFile where
  "file_with_T0 =
     (new_file ''doc.eaf'')
       \<lparr>tiers := [0], tiers_dict := [(''T0'', 0)], annotations_dict := [(''a1'', old_a1)]\<rparr>"

text \<open>A controlled vocabulary without and one with an external reference, an entry, and
  the state in which that entry has been added.\<close>

definition cv1 :: ELANControlledVocabulary where
  "cv1 = ELANControlledVocabulary_init ''cv1'' None None"

definition cv_external :: ELANControlledVocabulary where
  "cv_external = ELANControlledVocabulary_init ''cv3'' None (Some ''er1'')"

definition noun :: ELANControlledVocabularyEntry where
  "noun = \<lparr>cve_value = ''noun'', cve_description = None, cve_ext_ref = None\<rparr>"

definition state_with_noun :: py_state where
  "state_with_noun = \<lparr>tier_heap = [], cv_entries = [noun], cv_entries_dict = [(''noun'', noun)]\<rparr>"

section \<open>Dictionaries and loops\<close>

lemma dict_get_dict_set:
  "dict_get (dict_set k v d) k' = (if k' = k then Some v else dict_get d k')"
  by (induction d) (auto simp: dict_get_def)

lemma dict_contains_get: "dict_contains k d \<longleftrightarrow> dict_get d k \<noteq> None"
  by (simp add: dict_contains_def dict_get_def)

lemma dict_set_absent:
  "\<not> dict_contains k d \<Longrightarrow> dict_set k v d = d @ [(k, v)]"
  by (induction d) (auto simp: dict_contains_def)

lemma dict_keys_dict_set:
  "dict_keys (dict_set k v d) = (if k \<in> set (dict_keys d) then dict_keys d else dict_keys d @ [k])"
  by (induction d) (force simp: dict_keys_def)+

lemma foldl_append_concat:
  "foldl (\<lambda>node x. node @ f x) node xs = node @ concat (map f xs)"
  by (induction xs arbitrary: node) simp_all

lemma times_unfold:
  "times 2 s = s @ s" "times 3 s = s @ s @ s" "times 4 s = s @ s @ s @ s"
  by (simp_all add: times_def eval_nat_numeral)

lemma py_int_0: "py_int ''0'' = Inr 0"
  by (simp add: py_int_def strip_def is_space_def parse_nat_def is_digit_def digit_val_def)

lemma py_str_0: "py_str 0 = ''0''"
  by code_simp

text \<open>The children of \<^verbatim>\<open>HEADER\<close> change neither the time units nor the time order of the file.\<close>

lemma header_children_keeps:
  "header_children ns f = Inr f' \<Longrightarrow> time_units f' = time_units f \<and> time_order f' = time_order f"
proof (induction ns arbitrary: f)
  case Nil
  then show ?case by simp
next
  case (Cons n ns)
  show ?case
  proof (cases "is_element n")
    case False
    with Cons show ?thesis by simp
  next
    case True
    then obtain tag where tag: "tagName n = Inr tag" by (cases n) auto
    from Cons.prems True tag consider
        (media) m where "header_children ns (f\<lparr>media_files := media_files f @ [m],
            media_files_dict := dict_set (media_url m) m (media_files_dict f)\<rparr>) = Inr f'"
      | (linked) l where "header_children ns (f\<lparr>linked_files := linked_files f @ [l],
            linked_files_dict := dict_set (link_url l) l (linked_files_dict f)\<rparr>) = Inr f'"
      | (property_entry) k v where "header_children ns (f\<lparr>properties := dict_set k v (properties f)\<rparr>) = Inr f'"
      by (auto simp: and_then_def split: if_splits sum.splits option.splits)
    then show ?thesis
    proof cases
      case media
      from Cons.IH [OF this] show ?thesis by simp
    next
      case linked
      from Cons.IH [OF this] show ?thesis by simp
    next
      case property_entry
      from Cons.IH [OF this] show ?thesis by simp
    qed
  qed
qed

lemma parse_header_ignores_TIME_UNITS:
  "hasAttribute h ''TIME_UNITS'' \<Longrightarrow> parse_header h f = Inr f' \<Longrightarrow> time_units f' = time_units f"
  by (auto simp: parse_header_def Let_def dest!: header_children_keeps split: if_splits)

lemma parse_header_keeps_time_order:
  "parse_header h f = Inr f' \<Longrightarrow> time_order f' = time_order f"
  by (auto simp: parse_header_def Let_def dest!: header_children_keeps split: if_splits)

section \<open>Time slot ordering\<close>

lemma ELANTimeSlot_compare_concrete:
  "time_value a = Some x \<Longrightarrow> time_value b = Some y \<Longrightarrow>
   ELANTimeSlot_lt a b = Inr (x < y) \<and> ELANTimeSlot_gt a b = Inr (x > y) \<and>
   ELANTimeSlot_le a b = Inr (x \<le> y) \<and> ELANTimeSlot_ge a b = Inr (x \<ge> y)"
  by (auto simp: ELANTimeSlot_lt_def ELANTimeSlot_gt_def ELANTimeSlot_le_def ELANTimeSlot_ge_def py_eq_def)

lemma ELANTimeSlot_lt_gt_absent:
  "time_value a = None \<or> time_value b = None \<Longrightarrow>
   ELANTimeSlot_lt a b = Inl TypeError \<and> ELANTimeSlot_gt a b = Inl TypeError"
  by (cases "time_value a"; cases "time_value b")
     (auto simp: ELANTimeSlot_lt_def ELANTimeSlot_gt_def)

lemma ELANTimeSlot_le_ge_one_absent:
  "(time_value a = None) \<noteq> (time_value b = None) \<Longrightarrow>
   ELANTimeSlot_le a b = Inl TypeError \<and> ELANTimeSlot_ge a b = Inl TypeError"
  by (cases "time_value a"; cases "time_value b")
     (auto simp: ELANTimeSlot_le_def ELANTimeSlot_ge_def py_eq_def)

lemma ELANTimeSlot_le_ge_both_absent:
  "time_value a = None \<Longrightarrow> time_value b = None \<Longrightarrow>
   ELANTimeSlot_le a b = Inr True \<and> ELANTimeSlot_ge a b = Inr True"
  by (simp add: ELANTimeSlot_le_def ELANTimeSlot_ge_def py_eq_def)

text \<open>
  Claim C3. Two slots with concrete values compare as their values do, and a comparison
  with an absent value is to be rejected, never answered. The code answers one of them:
  for two slots that both lack a value, \<^verbatim>\<open>__le__\<close> and \<^verbatim>\<open>__ge__\<close> find the two \<^verbatim>\<open>None\<close>
  equal and return \<^verbatim>\<open>True\<close> before the ordering comparison is reached. The lemmas above
  show the rest of the claim holding: \<^verbatim>\<open><\<close> and \<^verbatim>\<open>>\<close> raise whenever a value is absent,
  and \<^verbatim>\<open><=\<close> and \<^verbatim>\<open>>=\<close> raise when exactly one is.
\<close>

theorem ELANTimeSlot_le_ge_absent_absent:
  "ELANTimeSlot_le \<lparr>ID = ''ts1'', time_value = None\<rparr> \<lparr>ID = ''ts2'', time_value = None\<rparr> = Inr True
   \<and> ELANTimeSlot_ge \<lparr>ID = ''ts1'', time_value = None\<rparr> \<lparr>ID = ''ts2'', time_value = None\<rparr> = Inr True"
  by (simp add: ELANTimeSlot_le_def ELANTimeSlot_ge_def py_eq_def)

section \<open>Alignability of a linguistic type\<close>

lemma set_time_alignable_accepts:
  "is_ok (set_time_alignable b self) \<longleftrightarrow>
     (if b then lt_constraints self \<in> {None, Some ''Time_Subdivison'', Some ''Included_In''}
      else lt_constraints self \<notin> {None, Some ''Symbolic_Subdivision'', Some ''Symbolic_Association''})"
  by (auto simp: set_time_alignable_def is_ok_def split: option.splits)

lemma set_time_alignable_flag:
  "set_time_alignable b self = Inr self' \<Longrightarrow> self' = self\<lparr>time_alignable := Some b\<rparr>"
  by (auto simp: set_time_alignable_def split: option.splits if_splits)

text \<open>
  Claim C4. \<^verbatim>\<open>set_time_alignable\<close> is to raise exactly when the flag contradicts the table
  of stereotypes. The code does not: the test for \<^verbatim>\<open>True\<close> compares the constraint with
  the misspelt \<^verbatim>\<open>Time_Subdivison\<close>, so \<^verbatim>\<open>True\<close> is refused for \<^verbatim>\<open>Time_Subdivision\<close>; and the
  test for \<^verbatim>\<open>False\<close> raises for the two symbolic stereotypes, for which \<^verbatim>\<open>False\<close> is the value
  of the table, and accepts \<^verbatim>\<open>False\<close> for \<^verbatim>\<open>Time_Subdivision\<close> and \<^verbatim>\<open>Included_In\<close>.
\<close>

theorem set_time_alignable_contradicts_table:
  "set_time_alignable True
     \<lparr>linguistic_type_id = ''lt'', time_alignable = Some True,
      lt_constraints = Some ''Time_Subdivision'', graphic_references = None,
      controlled_vocabulary_ref = None, lt_external_ref = None, lexicon_ref = None\<rparr>
   = Inl (RuntimeError ''Constraint Time_Subdivision is not time alignable.'')
   \<and> set_time_alignable False
     \<lparr>linguistic_type_id = ''lt'', time_alignable = Some False,
      lt_constraints = Some ''Symbolic_Association'', graphic_references = None,
      controlled_vocabulary_ref = None, lt_external_ref = None, lexicon_ref = None\<rparr>
   = Inl (RuntimeError ''Constraint Symbolic_Association is time alignable.'')
   \<and> set_time_alignable False
     \<lparr>linguistic_type_id = ''lt'', time_alignable = Some True,
      lt_constraints = Some ''Included_In'', graphic_references = None,
      controlled_vocabulary_ref = None, lt_external_ref = None, lexicon_ref = None\<rparr>
   = Inr \<lparr>linguistic_type_id = ''lt'', time_alignable = Some False,
      lt_constraints = Some ''Included_In'', graphic_references = None,
      controlled_vocabulary_ref = None, lt_external_ref = None, lexicon_ref = None\<rparr>"
  by (simp add: set_time_alignable_def)

section \<open>The external reference of an annotation\<close>

lemma alignable_from_xml_drops_external_ref:
  "ELANAlignableAnnotation_from_xml n = Inr a \<Longrightarrow> external_ref a = None"
  by (auto simp: ELANAlignableAnnotation_from_xml_def and_then_def ELANAlignableAnnotation_init_def
       split: sum.splits if_splits)

lemma ref_from_xml_external_ref:
  "ELANRefAnnotation_from_xml n = Inr a \<Longrightarrow> external_ref a = optional_attribute n ''EXTERNAL_REF''"
  by (auto simp: ELANRefAnnotation_from_xml_def and_then_def ELANRefAnnotation_init_def
       split: sum.splits if_splits)

text \<open>
  Claim C8. An \<^verbatim>\<open>ALIGNABLE_ANNOTATION\<close> or \<^verbatim>\<open>REF_ANNOTATION\<close> element with an \<^verbatim>\<open>EXT_REF\<close>
  attribute is to decode into an annotation with that external reference. Both factories
  look for an attribute named \<^verbatim>\<open>EXTERNAL_REF\<close>, while \<^verbatim>\<open>to_xml\<close> writes \<^verbatim>\<open>EXT_REF\<close> (and every
  other factory reads \<^verbatim>\<open>EXT_REF\<close>); the constructor of the alignable annotation moreover
  never stores the value it is given. Both elements below carry \<^verbatim>\<open>EXT_REF="er1"\<close>; both
  annotations come out with no external reference.
\<close>

theorem annotation_from_xml_loses_EXT_REF:
  "ELANAlignableAnnotation_from_xml
     (Element ''ALIGNABLE_ANNOTATION''
        [(''ANNOTATION_ID'', ''a1''), (''TIME_SLOT_REF1'', ''ts1''), (''TIME_SLOT_REF2'', ''ts2''),
         (''EXT_REF'', ''er1'')]
        [Element ''ANNOTATION_VALUE'' [] [Text ''hello'']])
   = Inr (ELANAlignableAnnotation ''a1'' ''hello'' ''ts1'' ''ts2'' None None)
   \<and> ELANRefAnnotation_from_xml
     (Element ''REF_ANNOTATION''
        [(''ANNOTATION_ID'', ''a2''), (''ANNOTATION_REF'', ''a1''), (''EXT_REF'', ''er1'')]
        [Element ''ANNOTATION_VALUE'' [] [Text ''world'']])
   = Inr (ELANRefAnnotation ''a2'' ''world'' ''a1'' None None)
   \<and> \<not> has_external_ref (ELANAlignableAnnotation ''a1'' ''hello'' ''ts1'' ''ts2'' None None)
   \<and> \<not> has_external_ref (ELANRefAnnotation ''a2'' ''world'' ''a1'' None None)"
  by (simp add: ELANAlignableAnnotation_from_xml_def ELANRefAnnotation_from_xml_def and_then_def
        required_attribute_def hasAttribute_def getAttribute_def optional_attribute_def
        annotation_value_from_xml_def first_text_def ELANAlignableAnnotation_init_def
        ELANRefAnnotation_init_def has_external_ref_def)

section \<open>The storage of controlled vocabularies\<close>

lemma cv_storage_shared:
  "get_cv_entries v1 st = get_cv_entries v2 st \<and> cv_len v1 st = cv_len v2 st
   \<and> get_cv_entry_by_value v1 x st = get_cv_entry_by_value v2 x st"
  by (simp add: get_cv_entries_def cv_len_def get_cv_entry_by_value_def)

text \<open>
  Claim C10. Every controlled vocabulary is to own its entries, so that adding an entry
  to one never shows in another. In the code the list and the index are attributes of
  the class that no constructor replaces: \<^verbatim>\<open>cv1\<close> and \<^verbatim>\<open>cv2\<close> below are constructed one
  after the other, \<^verbatim>\<open>cv2\<close> has no entry, and after \<^verbatim>\<open>cv1.add_cv_entry\<close> it has the entry
  \<^verbatim>\<open>noun\<close>, in its list, in its length and in its lookup by value.
\<close>

theorem add_cv_entry_changes_other_vocabulary:
  "add_cv_entry (ELANControlledVocabulary_init ''cv1'' None None)
      \<lparr>cve_value = ''noun'', cve_description = None, cve_ext_ref = None\<rparr> initial_state
    = (Inr (), \<lparr>tier_heap = [],
                 cv_entries = [\<lparr>cve_value = ''noun'', cve_description = None, cve_ext_ref = None\<rparr>],
                 cv_entries_dict =
                   [(''noun'', \<lparr>cve_value = ''noun'', cve_description = None, cve_ext_ref = None\<rparr>)]\<rparr>)
   \<and> get_cv_entries (ELANControlledVocabulary_init ''cv2'' None None) initial_state = []
   \<and> get_cv_entries (ELANControlledVocabulary_init ''cv2'' None None)
        (snd (add_cv_entry (ELANControlledVocabulary_init ''cv1'' None None)
           \<lparr>cve_value = ''noun'', cve_description = None, cve_ext_ref = None\<rparr> initial_state))
      = [\<lparr>cve_value = ''noun'', cve_description = None, cve_ext_ref = None\<rparr>]
   \<and> cv_len (ELANControlledVocabulary_init ''cv2'' None None)
        (snd (add_cv_entry (ELANControlledVocabulary_init ''cv1'' None None)
           \<lparr>cve_value = ''noun'', cve_description = None, cve_ext_ref = None\<rparr> initial_state))
      = 1
   \<and> get_cv_entry_by_value (ELANControlledVocabulary_init ''cv2'' None None) ''noun''
        (snd (add_cv_entry (ELANControlledVocabulary_init ''cv1'' None None)
           \<lparr>cve_value = ''noun'', cve_description = None, cve_ext_ref = None\<rparr> initial_state))
      = Some \<lparr>cve_value = ''noun'', cve_description = None, cve_ext_ref = None\<rparr>"
  by (simp add: add_cv_entry_def ELANControlledVocabulary_init_def initial_state_def dict_contains_def
        get_cv_entries_def cv_len_def get_cv_entry_by_value_def dict_get_def)

section \<open>The metadata of the document element\<close>

lemma parse_xml_metadata_optional:
  "\<exists>f. parse_xml [Element ''ANNOTATION_DOCUMENT'' attrs []] file_name st = (Inr f, st)
       \<and> author f = map_of attrs ''AUTHOR'' \<and> date f = map_of attrs ''DATE''
       \<and> version f = map_of attrs ''VERSION''"
  by (auto simp: parse_xml_def Let_def hasAttribute_def getAttribute_def new_file_def)

text \<open>
  Claim C7. Decoding a document element without \<^verbatim>\<open>AUTHOR\<close>, \<^verbatim>\<open>DATE\<close> or \<^verbatim>\<open>VERSION\<close> is to fail
  and name the missing attribute. The class marks the three \<^verbatim>\<open>required\<close> and every other
  factory raises for its required attributes, but \<^verbatim>\<open>parse_xml\<close> has no such branch: the
  three are read like optional attributes (\<open>parse_xml_metadata_optional\<close>), and the empty
  document element decodes into a file whose author, date and version are \<^verbatim>\<open>None\<close>.
\<close>

theorem parse_xml_accepts_missing_metadata:
  "parse_xml [Element ''ANNOTATION_DOCUMENT'' [] []] ''doc.eaf'' initial_state
     = (Inr (new_file ''doc.eaf''), initial_state)
   \<and> author (new_file ''doc.eaf'') = None
   \<and> date (new_file ''doc.eaf'') = None
   \<and> version (new_file ''doc.eaf'') = None"
  by (simp add: parse_xml_def hasAttribute_def new_file_def)

section \<open>Resolving the time slots of an alignable annotation\<close>

lemma time_order_inv_init: "time_order_inv ELANTimeOrder_init"
  by (simp add: time_order_inv_def ELANTimeOrder_init_def)

lemma time_order_inv_add:
  assumes "time_order_inv t" and "add_time_slot s t = Inr t'"
  shows "time_order_inv t'"
proof -
  from assms(2) have absent: "\<not> dict_contains (ID s) (time_slots_dict t)"
    and t': "t' = t\<lparr>time_slots := time_slots t @ [s],
                   time_slots_dict := dict_set (ID s) s (time_slots_dict t)\<rparr>"
    by (auto simp: add_time_slot_def split: if_splits)
  from absent assms(1) have "ID s \<notin> ID ` set (time_slots t)"
    by (auto simp: dict_contains_def time_order_inv_def map_of_eq_None_iff image_iff)
  with assms(1) absent show ?thesis
    by (simp add: t' time_order_inv_def dict_set_absent)
qed

lemma time_order_children_inv:
  "time_order_inv t \<Longrightarrow> time_order_children ns t = Inr t' \<Longrightarrow> time_order_inv t'"
proof (induction ns arbitrary: t)
  case Nil
  then show ?case by simp
next
  case (Cons n ns)
  then show ?case
    by (auto simp: and_then_def split: if_splits sum.splits dest: time_order_inv_add)
qed

lemma ELANTimeOrder_from_xml_inv:
  "ELANTimeOrder_from_xml n = Inr t \<Longrightarrow> time_order_inv t"
  by (auto simp: ELANTimeOrder_from_xml_def and_then_def split: sum.splits if_splits
      intro: time_order_children_inv [OF time_order_inv_init])

lemma time_order_lookup:
  assumes "time_order_inv t"
  shows "dict_get (time_slots_dict t) i = find (\<lambda>s. ID s = i) (time_slots t)"
proof -
  have "map_of (map (\<lambda>s. (ID s, s)) xs) i = find (\<lambda>s. ID s = i) xs" for xs :: "ELANTimeSlot list"
    by (induction xs) auto
  with assms show ?thesis by (simp add: time_order_inv_def dict_get_def)
qed

lemma document_children_time_order_inv:
  "time_order_ok f \<Longrightarrow> document_children ns f st = (Inr f', st') \<Longrightarrow> time_order_ok f'"
proof (induction ns arbitrary: f st)
  case Nil
  then show ?case by simp
next
  case (Cons n ns)
  show ?case
  proof (cases "is_element n")
    case False
    with Cons show ?thesis by simp
  next
    case True
    then obtain tag where tag: "tagName n = Inr tag" by (cases n) auto
    from Cons.prems(2) True tag obtain g st1 where
      step: "document_children ns g st1 = (Inr f', st')"
      and g: "time_order g = time_order f \<or> (\<exists>t. ELANTimeOrder_from_xml n = Inr t \<and> time_order g = Some t)"
      by (auto split: if_splits sum.splits prod.splits simp: new_tier_def
            dest: parse_header_keeps_time_order)
    from g Cons.prems(1) have "time_order_ok g"
      by (auto simp: time_order_ok_def dest: ELANTimeOrder_from_xml_inv)
    with Cons.IH step show ?thesis by blast
  qed
qed

lemma document_children_from_none:
  "document_children ns g st = (Inr f', st') \<Longrightarrow> time_order g = None \<Longrightarrow> time_order_ok f'"
  by (rule document_children_time_order_inv [of g]) (simp_all add: time_order_ok_def)

lemma parse_xml_time_order_inv:
  assumes "parse_xml tree file_name st = (Inr f, st')" and "time_order f = Some t"
  shows "time_order_inv t"
proof -
  from assms(1) have "time_order_ok f"
    by (auto simp: parse_xml_def Let_def new_file_def split: list.splits xml_node.splits if_splits
          dest!: document_children_from_none)
  with assms(2) show ?thesis by (simp add: time_order_ok_def)
qed

lemma three_slots_inv: "time_order_inv three_slots"
  by (simp add: time_order_inv_def three_slots_def)

text \<open>
  Claim C6, as the code has it. Each call of \<^verbatim>\<open>get_start_time\<close> or \<^verbatim>\<open>get_end_time\<close> looks the
  slot identifier up in the time order of the file as it is at that call. When no slot
  of the time order has the identifier the call fails with \<^verbatim>\<open>KeyError\<close>; otherwise it
  returns the time value of that slot, whatever it is: for a slot without a value the
  result is \<^verbatim>\<open>None\<close>, and no error is raised. The time order is one that
  \<^verbatim>\<open>add_time_slot\<close> has built, as every time order of a decoded file is
  (\<open>parse_xml_time_order_inv\<close>).
\<close>

theorem alignable_times_resolve:
  assumes "time_order elan_file = Some t_order" and "time_order_inv t_order"
  shows "get_start_time elan_file (ELANAlignableAnnotation i v s e svg ext) =
           (case find (\<lambda>slot. ID slot = s) (time_slots t_order) of
              None \<Rightarrow> Inl (KeyError ''No ELANTimeSlot with the given ID found.'')
            | Some slot \<Rightarrow> Inr (time_value slot))
       \<and> get_end_time elan_file (ELANAlignableAnnotation i v s e svg ext) =
           (case find (\<lambda>slot. ID slot = e) (time_slots t_order) of
              None \<Rightarrow> Inl (KeyError ''No ELANTimeSlot with the given ID found.'')
            | Some slot \<Rightarrow> Inr (time_value slot))"
  using assms
  by (auto simp: slot_time_def get_time_slot_by_id_def and_then_def get_time_value_def
       time_order_lookup split: option.splits)

theorem alignable_times_resolve_witness:
  "time_order file_with_slots = Some three_slots \<and> time_order_inv three_slots
   \<and> get_start_time file_with_slots (ELANAlignableAnnotation ''a1'' ''hello'' ''ts1'' ''ts2'' None None)
       = Inr (Some 0)
   \<and> get_end_time file_with_slots (ELANAlignableAnnotation ''a1'' ''hello'' ''ts1'' ''ts2'' None None)
       = Inr (Some 1000)
   \<and> get_start_time file_with_slots (ELANAlignableAnnotation ''a3'' ''lost'' ''ts9'' ''ts3'' None None)
       = Inl (KeyError ''No ELANTimeSlot with the given ID found.'')
   \<and> get_end_time file_with_slots (ELANAlignableAnnotation ''a3'' ''lost'' ''ts9'' ''ts3'' None None)
       = Inr None"
proof -
  have f: "time_order file_with_slots = Some three_slots"
    by (simp add: file_with_slots_def new_file_def)
  have slots: "time_slots three_slots =
      [\<lparr>ID = ''ts1'', time_value = Some 0\<rparr>, \<lparr>ID = ''ts2'', time_value = Some 1000\<rparr>,
       \<lparr>ID = ''ts3'', time_value = None\<rparr>]"
    by (simp add: three_slots_def)
  from alignable_times_resolve [OF f three_slots_inv, of "''a1''" "''hello''" "''ts1''" "''ts2''" None None]
       alignable_times_resolve [OF f three_slots_inv, of "''a3''" "''lost''" "''ts9''" "''ts3''" None None]
       f three_slots_inv
  show ?thesis by (simp add: slots)
qed

text \<open>The claim as stated fails where the slot has no value: the call returns \<^verbatim>\<open>None\<close>.\<close>

theorem get_start_time_returns_absent_value:
  "get_start_time file_with_slots (ELANAlignableAnnotation ''a2'' ''pending'' ''ts3'' ''ts3'' None None)
     = Inr None"
  by (simp add: file_with_slots_def new_file_def three_slots_def slot_time_def get_time_slot_by_id_def
        dict_get_def and_then_def get_time_value_def)

section \<open>Adding an entry to a controlled vocabulary\<close>

text \<open>
  Claim C5, as the code has it. When the vocabulary carries an external reference,
  \<^verbatim>\<open>add_cv_entry\<close> raises and changes nothing. When it carries none and the index the
  vocabulary reads already has an entry of that value, the call returns normally and
  changes nothing: the comment in the code reads "only add new, non-redundant entries",
  and there is no error for a duplicate value. Otherwise the entry is appended to the
  list and entered into the index under its value.
\<close>

theorem add_cv_entry_cases:
  "(cv_ext_ref self \<noteq> None \<longrightarrow>
      add_cv_entry self e st =
        (Inl (RuntimeError ''Cannot add entries to a controlled vocabulary pointing to an external reference.''), st))
   \<and> (cv_ext_ref self = None \<and> get_cv_entry_by_value self (cve_value e) st \<noteq> None \<longrightarrow>
      add_cv_entry self e st = (Inr (), st))
   \<and> (cv_ext_ref self = None \<and> get_cv_entry_by_value self (cve_value e) st = None \<longrightarrow>
      fst (add_cv_entry self e st) = Inr ()
      \<and> get_cv_entries self (snd (add_cv_entry self e st)) = get_cv_entries self st @ [e]
      \<and> (\<forall>v. get_cv_entry_by_value self v (snd (add_cv_entry self e st)) =
               (if v = cve_value e then Some e else get_cv_entry_by_value self v st)))"
  by (auto simp: add_cv_entry_def get_cv_entry_by_value_def get_cv_entries_def dict_contains_get
        dict_get_dict_set split: option.splits)

theorem add_cv_entry_cases_witness:
  "add_cv_entry cv_external noun initial_state =
     (Inl (RuntimeError ''Cannot add entries to a controlled vocabulary pointing to an external reference.''),
      initial_state)
   \<and> add_cv_entry cv1 noun state_with_noun = (Inr (), state_with_noun)
   \<and> fst (add_cv_entry cv1 noun initial_state) = Inr ()
   \<and> get_cv_entries cv1 (snd (add_cv_entry cv1 noun initial_state)) = [noun]
   \<and> get_cv_entry_by_value cv1 ''noun'' (snd (add_cv_entry cv1 noun initial_state)) = Some noun"
proof -
  have h1: "cv_ext_ref cv_external \<noteq> None"
    by (simp add: cv_external_def ELANControlledVocabulary_init_def)
  have h2: "cv_ext_ref cv1 = None \<and> get_cv_entry_by_value cv1 (cve_value noun) state_with_noun \<noteq> None"
    by (simp add: cv1_def ELANControlledVocabulary_init_def get_cv_entry_by_value_def
          state_with_noun_def dict_get_def noun_def)
  have h3: "cv_ext_ref cv1 = None \<and> get_cv_entry_by_value cv1 (cve_value noun) initial_state = None"
    by (simp add: cv1_def ELANControlledVocabulary_init_def get_cv_entry_by_value_def
          initial_state_def dict_get_def)
  have v: "cve_value noun = ''noun''" and e: "get_cv_entries cv1 initial_state = []"
    by (simp_all add: noun_def get_cv_entries_def initial_state_def)
  from add_cv_entry_cases [of cv_external noun initial_state] h1
  have c1: "add_cv_entry cv_external noun initial_state =
     (Inl (RuntimeError ''Cannot add entries to a controlled vocabulary pointing to an external reference.''),
      initial_state)" by blast
  from add_cv_entry_cases [of cv1 noun state_with_noun] h2
  have c2: "add_cv_entry cv1 noun state_with_noun = (Inr (), state_with_noun)" by blast
  from add_cv_entry_cases [of cv1 noun initial_state] h3
  have c3: "fst (add_cv_entry cv1 noun initial_state) = Inr ()
      \<and> get_cv_entries cv1 (snd (add_cv_entry cv1 noun initial_state)) = get_cv_entries cv1 initial_state @ [noun]
      \<and> (\<forall>v. get_cv_entry_by_value cv1 v (snd (add_cv_entry cv1 noun initial_state)) =
               (if v = cve_value noun then Some noun else get_cv_entry_by_value cv1 v initial_state))"
    by blast
  from c1 c2 c3 show ?thesis by (simp add: v e)
qed

text \<open>The claim as stated fails for a value that is already present: no error is raised.\<close>

theorem add_cv_entry_duplicate_value_returns:
  "get_cv_entry_by_value cv1 ''noun'' state_with_noun = Some noun
   \<and> add_cv_entry cv1 \<lparr>cve_value = ''noun'', cve_description = Some ''again'', cve_ext_ref = None\<rparr>
        state_with_noun
      = (Inr (), state_with_noun)"
  by (simp add: add_cv_entry_def cv1_def ELANControlledVocabulary_init_def state_with_noun_def
        dict_contains_def get_cv_entry_by_value_def dict_get_def)

section \<open>Adding an annotation whose identifier is in use\<close>

lemma index_annotations_snoc:
  "index_annotations (as @ [a]) d = dict_set (annotation_id a) a (index_annotations as d)"
  by (simp add: index_annotations_def)

lemma index_annotations_lookup:
  "dict_get (index_annotations as d) i =
     (case find (\<lambda>a. annotation_id a = i) (rev as) of
        Some a \<Rightarrow> Some a
      | None \<Rightarrow> dict_get d i)"
proof (induction as rule: rev_induct)
  case Nil
  then show ?case by (simp add: index_annotations_def)
next
  case (snoc a as)
  then show ?case by (simp add: index_annotations_snoc dict_get_dict_set)
qed

lemma find_Some_member: "find P xs = Some x \<Longrightarrow> x \<in> set xs \<and> P x"
  by (induction xs) (auto split: if_splits)

text \<open>
  What the two operations do with an identifier that is already in the annotation index
  of the file. \<^verbatim>\<open>tier.add_annotation\<close> appends the annotation to the list of that tier object
  and touches nothing else: no other tier, and not the file, whose index it has no access
  to. \<^verbatim>\<open>add_tier\<close> appends the tier to the file and enters every annotation of the tier
  into the index, the later one over the earlier one: afterwards an identifier that
  occurs in the tier resolves to the last annotation of the tier that has it, and every
  other identifier resolves as before. Neither operation raises.
\<close>

lemma adding_annotation_with_used_id:
  assumes "dict_contains (annotation_id a) (annotations_dict doc)"
    and "r < length (tier_heap st)"
    and "a \<in> set (annotations (tier_at st t))"
  shows "annotations (tier_at (tier_add_annotation r a st) r) = annotations (tier_at st r) @ [a]
     \<and> (\<forall>r'. r' \<noteq> r \<longrightarrow> tier_at (tier_add_annotation r a st) r' = tier_at st r')
     \<and> (\<exists>doc'. add_tier t doc st = Inr doc' \<and> tiers doc' = tiers doc @ [t]
           \<and> (\<forall>i. get_annotation_by_id doc' i =
                 (case find (\<lambda>x. annotation_id x = i) (rev (annotations (tier_at st t))) of
                    Some x \<Rightarrow> Inr x
                  | None \<Rightarrow> get_annotation_by_id doc i))
           \<and> (\<exists>a'. a' \<in> set (annotations (tier_at st t)) \<and> annotation_id a' = annotation_id a
                 \<and> get_annotation_by_id doc' (annotation_id a) = Inr a'))
     \<and> is_ok (get_annotation_by_id doc (annotation_id a))"
proof -
  have heap: "annotations (tier_at (tier_add_annotation r a st) r) = annotations (tier_at st r) @ [a]"
    "\<forall>r'. r' \<noteq> r \<longrightarrow> tier_at (tier_add_annotation r a st) r' = tier_at st r'"
    using assms(2) by (simp_all add: tier_add_annotation_def tier_at_def add_annotation_def)
  define doc' where "doc' =
    doc\<lparr>tiers := tiers doc @ [t],
        tiers_dict := dict_set (tier_id (tier_at st t)) t (tiers_dict doc),
        annotations_dict := index_annotations (annotations (tier_at st t)) (annotations_dict doc)\<rparr>"
  have add: "add_tier t doc st = Inr doc'" and tiers: "tiers doc' = tiers doc @ [t]"
    by (simp_all add: add_tier_def doc'_def)
  have lookup: "get_annotation_by_id doc' i =
       (case find (\<lambda>x. annotation_id x = i) (rev (annotations (tier_at st t))) of
          Some x \<Rightarrow> Inr x
        | None \<Rightarrow> get_annotation_by_id doc i)" for i
    by (simp add: get_annotation_by_id_def doc'_def index_annotations_lookup split: option.splits)
  from assms(3) obtain a' where
    found: "find (\<lambda>x. annotation_id x = annotation_id a) (rev (annotations (tier_at st t))) = Some a'"
    by (cases "find (\<lambda>x. annotation_id x = annotation_id a) (rev (annotations (tier_at st t)))")
       (auto simp: find_None_iff)
  then have a': "a' \<in> set (annotations (tier_at st t))" "annotation_id a' = annotation_id a"
    using find_Some_member [OF found] by simp_all
  from found have "get_annotation_by_id doc' (annotation_id a) = Inr a'"
    by (simp add: lookup)
  moreover from assms(1) have "is_ok (get_annotation_by_id doc (annotation_id a))"
    by (auto simp: dict_contains_get get_annotation_by_id_def is_ok_def split: option.splits)
  ultimately have big: "add_tier t doc st = Inr doc' \<and> tiers doc' = tiers doc @ [t]
           \<and> (\<forall>i. get_annotation_by_id doc' i =
                 (case find (\<lambda>x. annotation_id x = i) (rev (annotations (tier_at st t))) of
                    Some x \<Rightarrow> Inr x
                  | None \<Rightarrow> get_annotation_by_id doc i))
           \<and> (\<exists>a'. a' \<in> set (annotations (tier_at st t)) \<and> annotation_id a' = annotation_id a
                 \<and> get_annotation_by_id doc' (annotation_id a) = Inr a')"
    and ok: "is_ok (get_annotation_by_id doc (annotation_id a))"
    using add tiers lookup a' by auto
  have ex: "\<exists>doc'. add_tier t doc st = Inr doc' \<and> tiers doc' = tiers doc @ [t]
           \<and> (\<forall>i. get_annotation_by_id doc' i =
                 (case find (\<lambda>x. annotation_id x = i) (rev (annotations (tier_at st t))) of
                    Some x \<Rightarrow> Inr x
                  | None \<Rightarrow> get_annotation_by_id doc i))
           \<and> (\<exists>a'. a' \<in> set (annotations (tier_at st t)) \<and> annotation_id a' = annotation_id a
                 \<and> get_annotation_by_id doc' (annotation_id a) = Inr a')"
    by (rule exI [of _ doc']) (rule big)
  show ?thesis
    by (intro conjI) (rule heap ex ok)+
qed

lemma adding_annotation_with_used_id_example:
  "dict_contains (annotation_id new_a1) (annotations_dict file_with_T0)
   \<and> 0 < length (tier_heap two_tiers)
   \<and> new_a1 \<in> set (annotations (tier_at two_tiers 1))
   \<and> annotations (tier_at (tier_add_annotation 0 new_a1 two_tiers) 0) = [old_a1, new_a1]
   \<and> tier_at (tier_add_annotation 0 new_a1 two_tiers) 1 = tier_at two_tiers 1
   \<and> (\<exists>doc'. add_tier 1 file_with_T0 two_tiers = Inr doc' \<and> tiers doc' = [0, 1]
         \<and> get_annotation_by_id doc' ''a1'' = Inr new_a1)
   \<and> get_annotation_by_id file_with_T0 ''a1'' = Inr old_a1"
proof -
  have h1: "dict_contains (annotation_id new_a1) (annotations_dict file_with_T0)"
    by (simp add: dict_contains_def file_with_T0_def new_file_def new_a1_def)
  have h2: "0 < length (tier_heap two_tiers)"
    by (simp add: two_tiers_def)
  have t1: "annotations (tier_at two_tiers 1) = [new_a1]" and t0: "annotations (tier_at two_tiers 0) = [old_a1]"
    by (simp_all add: two_tiers_def tier_at_def add_annotation_def ELANTier_init_def)
  have h3: "new_a1 \<in> set (annotations (tier_at two_tiers 1))"
    using t1 by simp
  have ids: "annotation_id new_a1 = ''a1''" "tiers file_with_T0 = [0]"
    by (simp_all add: new_a1_def file_with_T0_def new_file_def)
  have old: "get_annotation_by_id file_with_T0 ''a1'' = Inr old_a1"
    by (simp add: get_annotation_by_id_def file_with_T0_def new_file_def dict_get_def)
  from adding_annotation_with_used_id [OF h1 h2 h3]
  show ?thesis using h1 h2 h3 old t0 t1 ids by auto
qed

text \<open>
  Claim C2. Adding an annotation whose identifier is already in the annotation index of
  the file is to fail with a duplicate identifier error and to change neither the index
  nor any tier. No path of the code that adds an annotation looks for its identifier,
  although \<^verbatim>\<open>add_time_slot\<close> refuses a used identifier, \<^verbatim>\<open>ELANTier\<close> sets up an
  \<^verbatim>\<open>annotations_dict\<close> and a membership test by identifier that \<^verbatim>\<open>add_annotation\<close> never
  fills or asks, and the index of the file is the view on all annotations of all tiers.
  Below, \<^verbatim>\<open>a1\<close> is in the index of the file. Appending a second annotation \<^verbatim>\<open>a1\<close> to the
  tier of the file succeeds and the tier holds both; adding a tier with a second \<^verbatim>\<open>a1\<close>
  succeeds and the identifier resolves to the new annotation, the old one being no
  longer reachable by it.
\<close>

theorem used_annotation_id_is_accepted:
  "get_annotation_by_id file_with_T0 ''a1'' = Inr old_a1
   \<and> annotations (tier_at (tier_add_annotation 0 new_a1 two_tiers) 0) = [old_a1, new_a1]
   \<and> add_tier 1 file_with_T0 two_tiers =
       Inr (file_with_T0\<lparr>tiers := [0, 1], tiers_dict := [(''T0'', 0), (''T1'', 1)],
                          annotations_dict := [(''a1'', new_a1)]\<rparr>)
   \<and> get_annotation_by_id
        (file_with_T0\<lparr>tiers := [0, 1], tiers_dict := [(''T0'', 0), (''T1'', 1)],
                       annotations_dict := [(''a1'', new_a1)]\<rparr>) ''a1'' = Inr new_a1
   \<and> new_a1 \<noteq> old_a1"
  by (simp add: get_annotation_by_id_def file_with_T0_def new_file_def dict_get_def
        tier_add_annotation_def tier_at_def two_tiers_def add_annotation_def ELANTier_init_def
        add_tier_def index_annotations_def new_a1_def old_a1_def)

section \<open>The order of the encoded document\<close>

lemma append_each_external_references:
  "xs \<noteq> [] \<Longrightarrow> append_each (ELANExternalReference_to_xml indent) xs node = Inl AttributeError"
  by (cases xs) (simp_all add: ELANExternalReference_to_xml_def and_then_def)

lemma append_each_AttributeError:
  "(\<And>x e. f x = Inl e \<Longrightarrow> e = AttributeError) \<Longrightarrow> append_each f xs node = Inl e \<Longrightarrow> e = AttributeError"
  by (induction xs arbitrary: node) (auto simp: and_then_def split: sum.splits)

lemma property_to_xml_error:
  "property_to_xml indent self k = Inl e \<Longrightarrow> e = AttributeError"
  by (auto simp: property_to_xml_def and_then_def escape_opt_def split: option.splits sum.splits)

lemma append_each_properties_error:
  "append_each (property_to_xml indent self) ks node = Inl e \<Longrightarrow> e = AttributeError"
  by (rule append_each_AttributeError [where f = "property_to_xml indent self"])
     (auto dest: property_to_xml_error)

lemma append_each_linked_files_error:
  "append_each (ELANLinkedFileDescriptor_to_xml indent) xs node = Inl e \<Longrightarrow> e = AttributeError"
  by (rule append_each_AttributeError [where f = "ELANLinkedFileDescriptor_to_xml indent"])
     (auto simp: ELANLinkedFileDescriptor_to_xml_def)

lemma append_each_linked_files:
  "xs \<noteq> [] \<Longrightarrow> append_each (ELANLinkedFileDescriptor_to_xml indent) xs node = Inl AttributeError"
  by (cases xs) (simp_all add: ELANLinkedFileDescriptor_to_xml_def and_then_def)

lemma append_each_linked_files_Inr:
  "append_each (ELANLinkedFileDescriptor_to_xml indent) xs node = Inr s \<Longrightarrow> xs = [] \<and> s = node"
  by (cases xs) (simp_all add: ELANLinkedFileDescriptor_to_xml_def and_then_def)

lemma ELANFile_to_xml_external_references:
  assumes "external_references self \<noteq> []"
  shows "ELANFile_to_xml parses indent self st = Inl AttributeError"
  using assms
  by (auto simp: ELANFile_to_xml_def and_then_def escape_opt_def Let_def append_each_external_references
       split: option.splits sum.splits
       dest: append_each_properties_error append_each_linked_files_error)

lemma ELANFile_to_xml_linked_files:
  assumes "linked_files self \<noteq> []"
  shows "ELANFile_to_xml parses indent self st = Inl AttributeError"
  using assms
  by (auto simp: ELANFile_to_xml_def and_then_def escape_opt_def Let_def append_each_linked_files
       split: option.splits sum.splits)

lemma append_each_Inr:
  "append_each f xs node = Inr s \<Longrightarrow>
   \<exists>ys. list_all2 (\<lambda>x y. f x = Inr y) xs ys \<and> s = node @ concat ys"
proof (induction xs arbitrary: node)
  case Nil
  then show ?case by simp
next
  case (Cons x xs)
  from Cons.prems obtain y where y: "f x = Inr y" and rest: "append_each f xs (node @ y) = Inr s"
    by (auto simp: and_then_def split: sum.splits)
  from Cons.IH [OF rest] obtain ys where "list_all2 (\<lambda>x y. f x = Inr y) xs ys" "s = (node @ y) @ concat ys"
    by blast
  with y have "list_all2 (\<lambda>x y. f x = Inr y) (x # xs) (y # ys) \<and> s = node @ concat (y # ys)"
    by simp
  then show ?case by blast
qed

lemma append_each_external_references_Inr:
  "append_each (ELANExternalReference_to_xml indent) xs node = Inr s \<Longrightarrow> xs = [] \<and> s = node"
  by (cases xs) (simp_all add: ELANExternalReference_to_xml_def and_then_def)

lemma ELANFile_to_xml_layout:
  assumes "ELANFile_to_xml parses indent self st = Inr s"
  shows "\<exists>d a v t_order ps.
     date self = Some d \<and> author self = Some a \<and> version self = Some v
     \<and> time_order self = Some t_order
     \<and> linked_files self = [] \<and> external_references self = []
     \<and> list_all2 (\<lambda>k p. property_to_xml indent self k = Inr p) (dict_keys (properties self)) ps
     \<and> parses s
     \<and> s = ''<?xml version='' @ quote @ ''1.0'' @ quote @ '' encoding='' @ quote @ ''UTF-8''
           @ quote @ ''?>\<newline>''
           @ ''<ANNOTATION_DOCUMENT''
           @ '' DATE='' @ quote @ escape d @ quote
           @ '' AUTHOR='' @ quote @ escape a @ quote
           @ '' VERSION='' @ quote @ escape v @ quote
           @ (case format self of
                Some f \<Rightarrow> xml_attr ''FORMAT'' f
              | None \<Rightarrow> '' FORMAT='' @ quote @ ''2.7'' @ quote)
           @ ''>\<newline>''
           @ indent @ ''<HEADER''
           @ '' MEDIA_FILE='' @ quote @ quote
           @ (case time_units self of
                Some u \<Rightarrow> xml_attr ''TIME_UNITS'' u
              | None \<Rightarrow> '' TIME_UNITS='' @ quote @ ''milliseconds'' @ quote)
           @ ''>\<newline>''
           @ concat (map (ELANMediaDescriptor_to_xml indent) (media_files self))
           @ concat ps
           @ indent @ ''</HEADER>\<newline>''
           @ ELANTimeOrder_to_xml indent t_order
           @ concat (map (\<lambda>tier. ELANTier_to_xml indent (tier_at st tier)) (tiers self))
           @ concat (map (ELANLinguisticType_to_xml indent) (linguistic_types self))
           @ concat (map (ELANLocale_to_xml indent) (locales self))
           @ concat (map (ELANConstraint_to_xml indent) (constraints self))
           @ concat (map (\<lambda>cv. ELANControlledVocabulary_to_xml indent cv st) (controlled_vocabularies self))
           @ concat (map (ELANLexiconReference_to_xml indent) (lexicon_references self))
           @ ''</ANNOTATION_DOCUMENT>\<newline>''"
proof -
  from assms obtain d a v where dav: "date self = Some d" "author self = Some a" "version self = Some v"
    by (auto simp: ELANFile_to_xml_def and_then_def escape_opt_def split: option.splits sum.splits)
  define head where "head =
      ''<?xml version='' @ quote @ ''1.0'' @ quote @ '' encoding='' @ quote @ ''UTF-8''
           @ quote @ ''?>\<newline>''
           @ ''<ANNOTATION_DOCUMENT''
           @ '' DATE='' @ quote @ escape d @ quote
           @ '' AUTHOR='' @ quote @ escape a @ quote
           @ '' VERSION='' @ quote @ escape v @ quote
           @ (case format self of
                Some f \<Rightarrow> xml_attr ''FORMAT'' f
              | None \<Rightarrow> '' FORMAT='' @ quote @ ''2.7'' @ quote)
           @ ''>\<newline>''
           @ indent @ ''<HEADER''
           @ '' MEDIA_FILE='' @ quote @ quote
           @ (case time_units self of
                Some u \<Rightarrow> xml_attr ''TIME_UNITS'' u
              | None \<Rightarrow> '' TIME_UNITS='' @ quote @ ''milliseconds'' @ quote)
           @ ''>\<newline>''
           @ concat (map (ELANMediaDescriptor_to_xml indent) (media_files self))"
  from assms dav obtain t_order where t: "time_order self = Some t_order"
    by (auto simp: ELANFile_to_xml_def and_then_def escape_opt_def Let_def
          split: sum.splits option.splits)
  from assms dav t obtain n0 n1 n2 where
    n0: "append_each (ELANLinkedFileDescriptor_to_xml indent) (linked_files self) head = Inr n0"
    and n1: "append_each (property_to_xml indent self) (dict_keys (properties self)) n0 = Inr n1"
    and n2: "append_each (ELANExternalReference_to_xml indent) (external_references self)
           (n1 @ indent @ ''</HEADER>\<newline>'' @ ELANTimeOrder_to_xml indent t_order
            @ concat (map (\<lambda>tier. ELANTier_to_xml indent (tier_at st tier)) (tiers self))
            @ concat (map (ELANLinguisticType_to_xml indent) (linguistic_types self))
            @ concat (map (ELANLocale_to_xml indent) (locales self))
            @ concat (map (ELANConstraint_to_xml indent) (constraints self))
            @ concat (map (\<lambda>cv. ELANControlledVocabulary_to_xml indent cv st) (controlled_vocabularies self))
            @ concat (map (ELANLexiconReference_to_xml indent) (lexicon_references self))) = Inr n2"
    and fin: "parses (n2 @ ''</ANNOTATION_DOCUMENT>\<newline>'')" "s = n2 @ ''</ANNOTATION_DOCUMENT>\<newline>''"
    by (auto simp: ELANFile_to_xml_def and_then_def escape_opt_def Let_def foldl_append_concat head_def
          split: sum.splits if_splits)
  from append_each_external_references_Inr [OF n2] have
    ext: "external_references self = []"
    and n2_eq: "n2 = n1 @ indent @ ''</HEADER>\<newline>'' @ ELANTimeOrder_to_xml indent t_order
            @ concat (map (\<lambda>tier. ELANTier_to_xml indent (tier_at st tier)) (tiers self))
            @ concat (map (ELANLinguisticType_to_xml indent) (linguistic_types self))
            @ concat (map (ELANLocale_to_xml indent) (locales self))
            @ concat (map (ELANConstraint_to_xml indent) (constraints self))
            @ concat (map (\<lambda>cv. ELANControlledVocabulary_to_xml indent cv st) (controlled_vocabularies self))
            @ concat (map (ELANLexiconReference_to_xml indent) (lexicon_references self))"
    by simp_all
  from append_each_linked_files_Inr [OF n0] have
    linked: "linked_files self = []" and n0_eq: "n0 = head"
    by simp_all
  from append_each_Inr [OF n1] n0_eq obtain ps where
    ps: "list_all2 (\<lambda>k p. property_to_xml indent self k = Inr p) (dict_keys (properties self)) ps"
    and n1_eq: "n1 = head @ concat ps"
    by blast
  from fin n2_eq n1_eq have "parses s" and "s = head @ concat ps @ indent @ ''</HEADER>\<newline>''
            @ ELANTimeOrder_to_xml indent t_order
            @ concat (map (\<lambda>tier. ELANTier_to_xml indent (tier_at st tier)) (tiers self))
            @ concat (map (ELANLinguisticType_to_xml indent) (linguistic_types self))
            @ concat (map (ELANLocale_to_xml indent) (locales self))
            @ concat (map (ELANConstraint_to_xml indent) (constraints self))
            @ concat (map (\<lambda>cv. ELANControlledVocabulary_to_xml indent cv st) (controlled_vocabularies self))
            @ concat (map (ELANLexiconReference_to_xml indent) (lexicon_references self))
            @ ''</ANNOTATION_DOCUMENT>\<newline>''"
    by simp_all
  with dav t linked ext ps show ?thesis
    unfolding head_def by (intro exI conjI) (assumption | simp)+
qed


text \<open>
  Claim C9. The encoded document is to hold its children in the fixed order, the
  \<^verbatim>\<open>EXTERNAL_REF\<close> elements last. For every file that \<^verbatim>\<open>to_xml\<close> encodes the order is the
  one claimed (\<open>ELANFile_to_xml_layout\<close>), but such a file has no external reference:
  the loop over the external references is the last one of \<^verbatim>\<open>to_xml\<close>, and its body
  raises \<^verbatim>\<open>AttributeError\<close> at the first reference
  (\<open>ELANFile_to_xml_external_references\<close>). The loop over the linked file descriptors
  raises in the same way (\<open>ELANFile_to_xml_linked_files\<close>). The file below is what the tree with one
  \<^verbatim>\<open>EXTERNAL_REF\<close> element decodes to; encoding it returns no text.
\<close>

theorem to_xml_fails_with_external_reference:
  "parse_xml tree_with_external_ref ''doc.eaf'' initial_state
     = (Inr file_with_external_ref, initial_state)
   \<and> ELANFile_to_xml (\<lambda>s. True) ''    '' file_with_external_ref initial_state = Inl AttributeError"
proof -
  have "parse_xml tree_with_external_ref ''doc.eaf'' initial_state
          = (Inr file_with_external_ref, initial_state)"
    by (simp add: parse_xml_def tree_with_external_ref_def file_with_external_ref_def source_file_def
          hasAttribute_def getAttribute_def new_file_def parse_header_def ELANTimeOrder_from_xml_def
          and_then_def ELANTimeSlot_from_xml_def required_attribute_def py_int_0 add_time_slot_def
          ELANTimeOrder_init_def dict_contains_def index_time_slots_def
          ELANExternalReference_from_xml_def first_text_def ELANExternalReference_init_def)
  moreover have "external_references file_with_external_ref \<noteq> []"
    by (simp add: file_with_external_ref_def)
  ultimately show ?thesis
    by (simp add: ELANFile_to_xml_external_references)
qed

section \<open>Decoding what was encoded\<close>

text \<open>
  Claim C1. Decoding the text a file encodes to is to give back an equal file. The file
  \<open>source_file\<close> is what \<open>source_tree\<close> decodes to; its time units are \<^verbatim>\<open>milliseconds\<close>.
  It encodes to the text of \<open>encoded_tree\<close>, whose \<^verbatim>\<open>HEADER\<close> carries
  \<^verbatim>\<open>TIME_UNITS="milliseconds"\<close>. Decoding that tree assigns the value of \<^verbatim>\<open>TIME_UNITS\<close> to
  \<^verbatim>\<open>media_file\<close> and leaves the time units \<^verbatim>\<open>None\<close>: the decoded file differs from the
  source in its metadata. No \<^verbatim>\<open>HEADER\<close> with a \<^verbatim>\<open>TIME_UNITS\<close> attribute ever sets the time
  units (\<open>parse_header_ignores_TIME_UNITS\<close>), and \<^verbatim>\<open>to_xml\<close> always writes the attribute.
\<close>

theorem decode_encode_loses_time_units:
  "parse_xml source_tree ''doc.eaf'' initial_state = (Inr source_file, initial_state)
   \<and> ELANFile_to_xml (\<lambda>s. True) ''    '' source_file initial_state
       = Inr (''<?xml version='' @ quote @ ''1.0'' @ quote @ '' encoding='' @ quote @ ''UTF-8'' @ quote
              @ ''?>\<newline>'' @ concat (map xml_text encoded_tree) @ ''\<newline>'')
   \<and> parse_xml encoded_tree ''doc.eaf'' initial_state
       = (Inr (source_file\<lparr>time_units := None, media_file := Some ''milliseconds''\<rparr>), initial_state)
   \<and> time_units source_file = Some ''milliseconds''
   \<and> time_units (source_file\<lparr>time_units := None, media_file := Some ''milliseconds''\<rparr>) = None"
proof -
  have decode: "parse_xml source_tree ''doc.eaf'' initial_state = (Inr source_file, initial_state)"
    by (simp add: parse_xml_def source_tree_def source_file_def hasAttribute_def getAttribute_def
          new_file_def parse_header_def ELANTimeOrder_from_xml_def and_then_def
          ELANTimeSlot_from_xml_def required_attribute_def py_int_0 add_time_slot_def
          ELANTimeOrder_init_def dict_contains_def index_time_slots_def)
  have encode: "ELANFile_to_xml (\<lambda>s. True) ''    '' source_file initial_state
       = Inr (''<?xml version='' @ quote @ ''1.0'' @ quote @ '' encoding='' @ quote @ ''UTF-8'' @ quote
              @ ''?>\<newline>'' @ concat (map xml_text encoded_tree) @ ''\<newline>'')"
    by (simp add: ELANFile_to_xml_def source_file_def new_file_def encoded_tree_def and_then_def
          escape_opt_def escape_def escape_char_def xml_attr_def quote_def dict_keys_def
          ELANTimeOrder_to_xml_def ELANTimeSlot_to_xml_def times_unfold py_str_0)
  have again: "parse_xml encoded_tree ''doc.eaf'' initial_state
       = (Inr (source_file\<lparr>time_units := None, media_file := Some ''milliseconds''\<rparr>), initial_state)"
    by (simp add: parse_xml_def encoded_tree_def source_file_def hasAttribute_def getAttribute_def
          new_file_def parse_header_def ELANTimeOrder_from_xml_def and_then_def
          ELANTimeSlot_from_xml_def required_attribute_def py_int_0 add_time_slot_def
          ELANTimeOrder_init_def dict_contains_def index_time_slots_def)
  have "time_units source_file = Some ''milliseconds''"
    by (simp add: source_file_def)
  with decode encode again show ?thesis by simp
qed

end
